theory Spec2Isabelle
  imports Complex_Main "HOL-Library.Multiset"
begin

section \<open>JavaScript values read by the dispatcher\<close>

text \<open>
  The code coerces row fields with \<^verbatim>\<open>Number(x)\<close> and tests them with \<^verbatim>\<open>||\<close>,
  \<^verbatim>\<open>&&\<close> and \<^verbatim>\<open>Number.isFinite\<close>.  A field read yields \<^verbatim>\<open>undefined\<close> (no such
  property), \<^verbatim>\<open>null\<close> (SQL NULL) or a number; \<^verbatim>\<open>Number\<close> maps these to NaN, 0
  and the number.  A number is a finite IEEE double, read as the real it denotes, or
  NaN; infinities and the sign of zero are not modelled.
\<close>

datatype jsval = Undefined | Null | Num real

datatype jsnum = NaN | Fin real

fun Number :: "jsval \<Rightarrow> jsnum" where
  "Number Undefined = NaN"
| "Number Null = Fin 0"
| "Number (Num r) = Fin r"

definition column :: "real option \<Rightarrow> jsval" where
  "column c = (case c of None \<Rightarrow> Null | Some r \<Rightarrow> Num r)"

text \<open>\<^verbatim>\<open>a || b || ... || null\<close> over numbers: the first operand that is neither NaN nor 0.\<close>

fun or_null :: "jsnum list \<Rightarrow> real option" where
  "or_null [] = None"
| "or_null (NaN # xs) = or_null xs"
| "or_null (Fin r # xs) = (if r \<noteq> 0 then Some r else or_null xs)"

text \<open>\<^verbatim>\<open>Number(a || b || ... || 0)\<close> over nullable numeric columns.\<close>

fun or_zero :: "real option list \<Rightarrow> real" where
  "or_zero [] = 0"
| "or_zero (None # xs) = or_zero xs"
| "or_zero (Some r # xs) = (if r \<noteq> 0 then r else or_zero xs)"

text \<open>A string operand of \<^verbatim>\<open>||\<close> or \<^verbatim>\<open>&&\<close> is truthy when it is present and not empty.\<close>

definition truthy :: "string option \<Rightarrow> bool" where
  "truthy s = (case s of None \<Rightarrow> False | Some t \<Rightarrow> t \<noteq> [])"

fun first_truthy :: "string option list \<Rightarrow> string option" where
  "first_truthy [] = None"
| "first_truthy (None # xs) = first_truthy xs"
| "first_truthy (Some t # xs) = (if t \<noteq> [] then Some t else first_truthy xs)"

definition is_space :: "char \<Rightarrow> bool" where
  "is_space c = (c = CHR '' '' \<or> c = CHR 0x09 \<or> c = CHR 0x0A \<or> c = CHR 0x0B
                 \<or> c = CHR 0x0C \<or> c = CHR 0x0D)"

definition trim :: "string \<Rightarrow> string" where
  "trim s = rev (dropWhile is_space (rev (dropWhile is_space s)))"

definition lower_char :: "char \<Rightarrow> char" where
  "lower_char c =
     (case map_of (zip ''ABCDEFGHIJKLMNOPQRSTUVWXYZ'' ''abcdefghijklmnopqrstuvwxyz'') c of
        None \<Rightarrow> c
      | Some d \<Rightarrow> d)"

definition toLowerCase :: "string \<Rightarrow> string" where
  "toLowerCase s = map lower_char s"

fun starts_with :: "string \<Rightarrow> string \<Rightarrow> bool" where
  "starts_with s [] = True"
| "starts_with [] (c # cs) = False"
| "starts_with (d # ds) (c # cs) = (d = c \<and> starts_with ds cs)"

fun includes_str :: "string \<Rightarrow> string \<Rightarrow> bool" where
  "includes_str [] sub = (sub = [])"
| "includes_str (c # cs) sub = (starts_with (c # cs) sub \<or> includes_str cs sub)"

definition String :: "string option \<Rightarrow> string" where
  "String s = (case s of None \<Rightarrow> ''null'' | Some t \<Rightarrow> t)"

section \<open>Rows, the in-memory dispatch state and the world\<close>

datatype status =
  REQUESTED | FINDING_VENDOR | ASSIGNED | ON_THE_WAY | COMPLETED | CANCELLED | NO_VENDOR_AVAILABLE

text \<open>
  A row of \<^verbatim>\<open>pickups\<close>.  Timestamps are milliseconds since the epoch.  The table has the
  columns \<^verbatim>\<open>latitude\<close> and \<^verbatim>\<open>longitude\<close> only, so the code's reads of
  \<^verbatim>\<open>pickup.lat\<close>, \<^verbatim>\<open>pickup.lon\<close> and \<^verbatim>\<open>pickup.lng\<close> yield \<^verbatim>\<open>undefined\<close>.
\<close>

record pickup =
  customer_id :: string
  status :: status
  latitude :: "real option"
  longitude :: "real option"
  assigned_vendor_ref :: "string option"
  assignment_expires_at :: "nat option"
  cancelled_at :: "nat option"
  completed_at :: "nat option"

text \<open>
  A row of \<^verbatim>\<open>vendor_backends\<close> with the columns of both layouts the code reads;
  \<open>row_id\<close>, \<open>v_latitude\<close> and \<open>v_longitude\<close> stand for \<^verbatim>\<open>id\<close>, \<^verbatim>\<open>latitude\<close> and
  \<^verbatim>\<open>longitude\<close>.
\<close>

record vendor =
  vendor_id :: "string option"
  vendor_ref :: "string option"
  row_id :: "string option"
  offer_url :: "string option"
  endpoint :: "string option"
  endpoint_offer_url :: "string option"
  last_latitude :: "real option"
  v_latitude :: "real option"
  lat :: "real option"
  last_longitude :: "real option"
  v_longitude :: "real option"
  lon :: "real option"
  lng :: "real option"

record dispatch_state =
  candidates :: "vendor list"
  index :: nat
  timer :: "nat option"
  rejectedVendorRefs :: "string list"

text \<open>
  The arithmetic of the runtime, a parameter of the model.  The result of \<^verbatim>\<open>+\<close>, \<^verbatim>\<open>-\<close>,
  \<^verbatim>\<open>*\<close>, \<^verbatim>\<open>/\<close> and \<^verbatim>\<open>Math.sqrt\<close> on doubles is the exact result rounded to a double
  by \<open>fl\<close>; \<^verbatim>\<open>Math.PI\<close>, \<^verbatim>\<open>Math.sin\<close>, \<^verbatim>\<open>Math.cos\<close>, \<^verbatim>\<open>Math.atan2\<close> and \<^verbatim>\<open>x ** 2\<close>
  are what the library gives.  \<open>sort_with_nan\<close> is the order in which
  \<^verbatim>\<open>Array.prototype.sort\<close> leaves the ranked list when one of the compared distances
  is NaN: the comparator is then not consistent and the order is up to the engine.
\<close>

record numerics =
  fl :: "real \<Rightarrow> real"
  Math_PI :: real
  Math_sin :: "real \<Rightarrow> real"
  Math_cos :: "real \<Rightarrow> real"
  Math_atan2 :: "real \<Rightarrow> real \<Rightarrow> real"
  pow2 :: "real \<Rightarrow> real"
  sort_with_nan :: "(vendor \<times> jsnum) list \<Rightarrow> (vendor \<times> jsnum) list"

datatype event = Posted string string string | Warned string

text \<open>
  The world: the two tables and the rejection log of the store, the process-local
  \<^verbatim>\<open>dispatchState\<close> map, the pending \<^verbatim>\<open>setTimeout\<close> callbacks (deadline and the
  arguments of \<^verbatim>\<open>handleOfferTimeout\<close>) under their handles, the clock, the number
  of row updates committed to \<^verbatim>\<open>pickups\<close>, and the offers posted and warnings
  printed by the offer transport (newest first).
\<close>

record world =
  pickups :: "string \<rightharpoonup> pickup"
  vendor_backends :: "vendor list"
  pickup_vendor_rejections :: "(string \<times> string) list"
  dispatchState :: "string \<rightharpoonup> dispatch_state"
  timers :: "nat \<rightharpoonup> (nat \<times> string \<times> vendor)"
  next_timer :: nat
  clock :: nat
  store_writes :: nat
  trace :: "event list"

record url =
  protocol :: string
  host :: string
  hostname :: string
  pathname :: string
  search :: string
  hash :: string

datatype fetch_result = NetworkError string | HttpStatus nat

datatype db_error = EnumOnTheWayMissing | DbError string

text \<open>
  What the code takes from outside: \<^verbatim>\<open>NODE_ENV\<close>, the arithmetic, the platform's URL
  constructor (\<open>None\<close> when it throws), the outcome and duration of a POST to a URL, the error the
  store answers with, if any (\<open>EnumOnTheWayMissing\<close> hits only statements that mention
  \<^verbatim>\<open>ON_THE_WAY\<close>), whether the rejection log table exists, whether the
  \<^verbatim>\<open>cancel_pickup\<close> procedure is installed, and what other handlers commit while
  \<^verbatim>\<open>dispatchPickup\<close> awaits the vendor directory query.
\<close>

record env =
  production :: bool
  numerics :: numerics
  new_URL :: "string \<Rightarrow> url option"
  fetch :: "string \<Rightarrow> fetch_result"
  fetch_ms :: "string \<Rightarrow> nat"
  store_error :: "db_error option"
  rejection_log :: bool
  cancel_rpc :: bool
  meanwhile :: "world \<Rightarrow> world"

definition store_fails :: "env \<Rightarrow> bool" where
  "store_fails e = (case store_error e of Some (DbError m) \<Rightarrow> True | _ \<Rightarrow> False)"

section \<open>Store Gateway: conditional updates\<close>

text \<open>
  \<^verbatim>\<open>from('pickups').update(f).eq('id', pid).<filters>.select().maybeSingle()\<close>:
  the row is rewritten when it exists and the filters hold; the result is the new row
  or \<^verbatim>\<open>null\<close>.
\<close>

definition update_pickup ::
  "string \<Rightarrow> (pickup \<Rightarrow> bool) \<Rightarrow> (pickup \<Rightarrow> pickup) \<Rightarrow> world \<Rightarrow> pickup option \<times> world" where
  "update_pickup pid cond f w =
     (case pickups w pid of
        None \<Rightarrow> (None, w)
      | Some p \<Rightarrow>
          if cond p
          then (Some (f p), w\<lparr>pickups := (pickups w)(pid \<mapsto> f p), store_writes := Suc (store_writes w)\<rparr>)
          else (None, w))"

definition clearTimeout :: "nat option \<Rightarrow> world \<Rightarrow> world" where
  "clearTimeout h w = (case h of None \<Rightarrow> w | Some k \<Rightarrow> w\<lparr>timers := (timers w)(k := None)\<rparr>)"

definition setTimeout :: "nat \<Rightarrow> string \<Rightarrow> vendor \<Rightarrow> world \<Rightarrow> nat \<times> world" where
  "setTimeout delay pid v w =
     (next_timer w,
      w\<lparr>timers := (timers w)(next_timer w \<mapsto> (clock w + delay, pid, v)),
        next_timer := Suc (next_timer w)\<rparr>)"

definition emit :: "event \<Rightarrow> world \<Rightarrow> world" where
  "emit ev w = w\<lparr>trace := ev # trace w\<rparr>"

section \<open>dispatcher.js\<close>

definition isTerminalStatus :: "status \<Rightarrow> bool" where
  "isTerminalStatus s = (s = ASSIGNED \<or> s = ON_THE_WAY \<or> s = CANCELLED \<or> s = COMPLETED)"

definition vendorIdOf :: "vendor \<Rightarrow> string" where
  "vendorIdOf v =
     (case first_truthy [vendor_id v, vendor_ref v, row_id v] of
        None \<Rightarrow> trim ''unknown''
      | Some raw \<Rightarrow> trim raw)"

definition strip_trailing_slashes :: "string \<Rightarrow> string" where
  "strip_trailing_slashes s = rev (dropWhile (\<lambda>c. c = CHR ''/'') (rev s))"

definition href :: "url \<Rightarrow> string" where
  "href u = protocol u @ ''//'' @ host u @ pathname u @ search u @ hash u"

definition offerUrlOf :: "env \<Rightarrow> vendor \<Rightarrow> string option" where
  "offerUrlOf e v =
     (case first_truthy [offer_url v, endpoint v, endpoint_offer_url v] of
        None \<Rightarrow> None
      | Some raw \<Rightarrow>
          let trimmed = trim raw in
          if trimmed = [] then None
          else (case new_URL e trimmed of
                  None \<Rightarrow> Some trimmed
                | Some u \<Rightarrow>
                    if strip_trailing_slashes (pathname u) = ''/api/offer'' then Some (href u)
                    else Some (href (u\<lparr>pathname := ''/api/offer'', search := [], hash := []\<rparr>))))"

record url_check =
  ok :: bool
  reason :: "string option"

definition validateOfferUrl :: "env \<Rightarrow> string option \<Rightarrow> url_check" where
  "validateOfferUrl e url =
     (if \<not> truthy url then \<lparr>ok = False, reason = Some ''missing''\<rparr>
      else (case new_URL e (String url) of
              None \<Rightarrow> \<lparr>ok = False, reason = Some ''invalid_url''\<rparr>
            | Some parsed \<Rightarrow>
                if protocol parsed \<noteq> ''http:'' \<and> protocol parsed \<noteq> ''https:''
                then \<lparr>ok = False, reason = Some ''not_http''\<rparr>
                else let h = toLowerCase (hostname parsed) in
                  if h = ''localhost'' \<or> h = ''127.0.0.1'' \<or> h = ''::1''
                  then \<lparr>ok = False, reason = Some ''localhost''\<rparr>
                  else \<lparr>ok = True, reason = None\<rparr>))"

text \<open>Arithmetic on doubles: NaN in, NaN out; otherwise the rounded exact result.\<close>

definition f_bin :: "numerics \<Rightarrow> (real \<Rightarrow> real \<Rightarrow> real) \<Rightarrow> jsnum \<Rightarrow> jsnum \<Rightarrow> jsnum" where
  "f_bin m opr x y =
     (case x of NaN \<Rightarrow> NaN | Fin a \<Rightarrow> (case y of NaN \<Rightarrow> NaN | Fin b \<Rightarrow> Fin (fl m (opr a b))))"

definition f_add :: "numerics \<Rightarrow> jsnum \<Rightarrow> jsnum \<Rightarrow> jsnum" where
  "f_add m x y = f_bin m (\<lambda>a b. a + b) x y"

definition f_sub :: "numerics \<Rightarrow> jsnum \<Rightarrow> jsnum \<Rightarrow> jsnum" where
  "f_sub m x y = f_bin m (\<lambda>a b. a - b) x y"

definition f_mul :: "numerics \<Rightarrow> jsnum \<Rightarrow> jsnum \<Rightarrow> jsnum" where
  "f_mul m x y = f_bin m (\<lambda>a b. a * b) x y"

text \<open>Division; the divisors in the code are the literals 180, 2 and 20.\<close>

definition f_div :: "numerics \<Rightarrow> jsnum \<Rightarrow> jsnum \<Rightarrow> jsnum" where
  "f_div m x y = f_bin m (\<lambda>a b. a / b) x y"

definition f_sin :: "numerics \<Rightarrow> jsnum \<Rightarrow> jsnum" where
  "f_sin m x = (case x of NaN \<Rightarrow> NaN | Fin a \<Rightarrow> Fin (Math_sin m a))"

definition f_cos :: "numerics \<Rightarrow> jsnum \<Rightarrow> jsnum" where
  "f_cos m x = (case x of NaN \<Rightarrow> NaN | Fin a \<Rightarrow> Fin (Math_cos m a))"

definition f_pow2 :: "numerics \<Rightarrow> jsnum \<Rightarrow> jsnum" where
  "f_pow2 m x = (case x of NaN \<Rightarrow> NaN | Fin a \<Rightarrow> Fin (pow2 m a))"

definition f_sqrt :: "numerics \<Rightarrow> jsnum \<Rightarrow> jsnum" where
  "f_sqrt m x = (case x of NaN \<Rightarrow> NaN | Fin a \<Rightarrow> if a < 0 then NaN else Fin (fl m (sqrt a)))"

definition f_atan2 :: "numerics \<Rightarrow> jsnum \<Rightarrow> jsnum \<Rightarrow> jsnum" where
  "f_atan2 m y x =
     (case y of NaN \<Rightarrow> NaN | Fin a \<Rightarrow> (case x of NaN \<Rightarrow> NaN | Fin b \<Rightarrow> Fin (Math_atan2 m a b)))"

text \<open>
  \<^verbatim>\<open>haversineDistanceKm\<close>, operation by operation.  Rounding can make \<open>a\<close> exceed 1
  for points that are nearly antipodal; \<^verbatim>\<open>Math.sqrt(1 - a)\<close> and the distance are then
  NaN.
\<close>

definition haversineDistanceKm :: "numerics \<Rightarrow> real \<Rightarrow> real \<Rightarrow> real \<Rightarrow> real \<Rightarrow> jsnum" where
  "haversineDistanceKm m lat1 lon1 lat2 lon2 =
     (let toRad = (\<lambda>v. f_div m (f_mul m v (Fin (Math_PI m))) (Fin 180));
          R = Fin 6371;
          dLat = toRad (f_sub m (Fin lat2) (Fin lat1));
          dLon = toRad (f_sub m (Fin lon2) (Fin lon1));
          a = f_add m
                (f_pow2 m (f_sin m (f_div m dLat (Fin 2))))
                (f_mul m
                   (f_mul m (f_cos m (toRad (Fin lat1))) (f_cos m (toRad (Fin lat2))))
                   (f_pow2 m (f_sin m (f_div m dLon (Fin 2)))));
          c = f_mul m (Fin 2) (f_atan2 m (f_sqrt m a) (f_sqrt m (f_sub m (Fin 1) a)))
      in f_mul m R c)"

definition fetchVendors :: "env \<Rightarrow> world \<Rightarrow> vendor list" where
  "fetchVendors e w = (if store_fails e then [] else take 500 (vendor_backends w))"

definition fetchRejectedVendorRefs :: "env \<Rightarrow> string \<Rightarrow> world \<Rightarrow> string list" where
  "fetchRejectedVendorRefs e pid w =
     (if store_fails e \<or> \<not> rejection_log e then []
      else take 500 (map snd (filter (\<lambda>r. fst r = pid) (pickup_vendor_rejections w))))"

definition recordVendorRejection :: "env \<Rightarrow> string \<Rightarrow> string \<Rightarrow> world \<Rightarrow> world" where
  "recordVendorRejection e pid vendorRef w =
     (if store_fails e \<or> \<not> rejection_log e then w
      else w\<lparr>pickup_vendor_rejections := List.insert (pid, vendorRef) (pickup_vendor_rejections w)\<rparr>)"

datatype send_error = InvalidOfferUrl "string option" | FetchThrew string | VendorResponded nat

text \<open>
  \<^verbatim>\<open>sendOfferToVendor\<close>: a thrown error is \<open>Inl\<close>.  The payload and the optional scrap
  summary (a read-only query whose failures are swallowed) are not modelled; the
  request is recorded by its URL, \<^verbatim>\<open>vendor_id\<close> and \<^verbatim>\<open>request_id\<close>.
\<close>

definition sendOfferToVendor :: "env \<Rightarrow> vendor \<Rightarrow> string \<Rightarrow> world \<Rightarrow> (send_error + bool) \<times> world" where
  "sendOfferToVendor e vendor pid w =
     (let url = offerUrlOf e vendor;
          vendorId = vendorIdOf vendor;
          urlCheck = validateOfferUrl e url
      in if \<not> ok urlCheck \<and> \<not> (\<not> production e \<and> includes_str (String url) ''localhost'')
         then (Inl (InvalidOfferUrl (reason urlCheck)), emit (Warned ''offer_url_invalid'') w)
         else
           let w1 = (if \<not> ok urlCheck then emit (Warned ''offer_url_localhost_allowed'') w else w);
               w2 = emit (Posted (String url) vendorId pid) w1;
               w3 = w2\<lparr>clock := clock w2 + fetch_ms e (String url)\<rparr>
           in (case fetch e (String url) of
                 NetworkError m \<Rightarrow> (Inl (FetchThrew m), emit (Warned ''http_error'') w3)
               | HttpStatus code \<Rightarrow>
                   if 200 \<le> code \<and> code \<le> 299 then (Inr True, w3)
                   else (Inl (VendorResponded code), emit (Warned ''http_failure'') w3)))"

subsection \<open>Ranking\<close>

definition MAX_SAFE_INTEGER :: real where
  "MAX_SAFE_INTEGER = 9007199254740991"

definition pickup_px :: "pickup \<Rightarrow> real option" where
  "pickup_px p = or_null [Number (column (latitude p)), Number Undefined]"

definition pickup_py :: "pickup \<Rightarrow> real option" where
  "pickup_py p = or_null [Number (column (longitude p)), Number Undefined, Number Undefined]"

definition distanceKm :: "numerics \<Rightarrow> real option \<Rightarrow> real option \<Rightarrow> vendor \<Rightarrow> jsnum" where
  "distanceKm m px py v =
     (let vx = or_zero [last_latitude v, v_latitude v, lat v];
          vy = or_zero [last_longitude v, v_longitude v, lon v, lng v]
      in case px of
           None \<Rightarrow> Fin MAX_SAFE_INTEGER
         | Some x \<Rightarrow>
             (case py of None \<Rightarrow> Fin MAX_SAFE_INTEGER | Some y \<Rightarrow> haversineDistanceKm m x y vx vy))"

definition the_num :: "jsnum \<Rightarrow> real" where
  "the_num x = (case x of NaN \<Rightarrow> 0 | Fin r \<Rightarrow> r)"

text \<open>
  \<^verbatim>\<open>vendors.map(...).sort((a, b) => a.distanceKm - b.distanceKm)\<close>.  When every
  distance is a number the comparator is consistent (the difference of two doubles
  has the sign of their exact difference) and the sort of the runtime is stable, so
  the result is the stable ascending sort, which \<^const>\<open>sort_key\<close> computes.  With a
  NaN among the distances the order is the engine's.
\<close>

definition ranked :: "numerics \<Rightarrow> pickup \<Rightarrow> vendor list \<Rightarrow> (vendor \<times> jsnum) list" where
  "ranked m p vendors =
     (let rows = map (\<lambda>v. (v, distanceKm m (pickup_px p) (pickup_py p) v)) vendors
      in if list_all (\<lambda>r. snd r \<noteq> NaN) rows then sort_key (\<lambda>r. the_num (snd r)) rows
         else sort_with_nan m rows)"

definition candidates_of :: "numerics \<Rightarrow> pickup \<Rightarrow> string list \<Rightarrow> vendor list \<Rightarrow> vendor list" where
  "candidates_of m p skipRefs vendors =
     filter (\<lambda>v. let r = vendorIdOf v in r = [] \<or> r \<notin> set skipRefs) (map fst (ranked m p vendors))"

subsection \<open>The advance loop\<close>

text \<open>An offer is active: the test made by \<^verbatim>\<open>dispatchPickup\<close> and by \<^verbatim>\<open>tryOfferNext\<close>.\<close>

definition activeOffer :: "pickup \<Rightarrow> nat \<Rightarrow> bool" where
  "activeOffer p now =
     (status p = FINDING_VENDOR \<and> truthy (assigned_vendor_ref p) \<and>
      (case assignment_expires_at p of None \<Rightarrow> False | Some t \<Rightarrow> now < t))"

definition clearExpiredOfferIfAny :: "string \<Rightarrow> world \<Rightarrow> world" where
  "clearExpiredOfferIfAny pid w =
     snd (update_pickup pid
            (\<lambda>p. status p = FINDING_VENDOR \<and>
                 (case assignment_expires_at p of None \<Rightarrow> False | Some t \<Rightarrow> t < clock w))
            (\<lambda>p. p\<lparr>assigned_vendor_ref := None, assignment_expires_at := None\<rparr>) w)"

text \<open>\<^verbatim>\<open>state.index += 1\<close> on the object held by the \<^verbatim>\<open>dispatchState\<close> map.\<close>

definition advance :: "string \<Rightarrow> dispatch_state \<Rightarrow> world \<Rightarrow> world" where
  "advance pid st w = w\<lparr>dispatchState := (dispatchState w)(pid \<mapsto> st\<lparr>index := Suc (index st)\<rparr>)\<rparr>"

datatype step = Return world | Continue world

text \<open>
  One pass through the body of the \<^verbatim>\<open>while\<close> loop of \<^verbatim>\<open>tryOfferNext\<close>, for
  \<open>index st < length (candidates st)\<close>: \<open>Continue\<close> is \<^verbatim>\<open>state.index += 1; continue\<close>,
  \<open>Return\<close> is \<^verbatim>\<open>return\<close>.  An error of the store at the reservation and any error
  of the send land in the \<^verbatim>\<open>catch\<close> block.
\<close>

definition offer_step :: "env \<Rightarrow> string \<Rightarrow> dispatch_state \<Rightarrow> world \<Rightarrow> step" where
  "offer_step e pid st w =
     (let vendor = candidates st ! index st;
          vendorId = vendorIdOf vendor
      in if vendorId \<in> set (rejectedVendorRefs st) then Continue (advance pid st w)
         else if store_fails e then Continue (advance pid st (emit (Warned ''offer_failed'') w))
         else
           let w1 = clearExpiredOfferIfAny pid w;
               expiresAt = clock w1 + 2 * 60 * 1000;
               res = update_pickup pid
                       (\<lambda>p. status p = FINDING_VENDOR \<and> assigned_vendor_ref p = None)
                       (\<lambda>p. p\<lparr>assigned_vendor_ref := Some vendorId,
                               assignment_expires_at := Some expiresAt,
                               status := FINDING_VENDOR\<rparr>) w1;
               w2 = snd res
           in (case fst res of
                 None \<Rightarrow>
                   (case pickups w2 pid of
                      None \<Rightarrow> Return w2
                    | Some currentPickup \<Rightarrow>
                        if isTerminalStatus (status currentPickup)
                        then Return ((clearTimeout (timer st) w2)
                                       \<lparr>dispatchState := (dispatchState w2)(pid := None)\<rparr>)
                        else if activeOffer currentPickup (clock w2) then Return w2
                        else Continue (advance pid st w2))
               | Some offered \<Rightarrow>
                   (case pickups w2 pid of
                      None \<Rightarrow> Continue (advance pid st (emit (Warned ''offer_failed'') w2))
                    | Some pickup \<Rightarrow>
                        (case sendOfferToVendor e vendor pid w2 of
                           (Inl err, w3) \<Rightarrow> Continue (advance pid st (emit (Warned ''offer_failed'') w3))
                         | (Inr sent, w3) \<Rightarrow>
                             let w4 = clearTimeout (timer st) w3;
                                 armed = setTimeout (2 * 60 * 1000 + 1000) pid vendor w4;
                                 w5 = snd armed
                             in Return (w5\<lparr>dispatchState :=
                                            (dispatchState w5)(pid \<mapsto> st\<lparr>timer := Some (fst armed)\<rparr>)\<rparr>)))))"

text \<open>
  The loop and what follows it: when the candidates are exhausted the row is set to
  \<^verbatim>\<open>NO_VENDOR_AVAILABLE\<close> by an update filtered on the id alone (its error, if any,
  is not looked at) and the session is dropped.
\<close>

function offer_loop :: "env \<Rightarrow> string \<Rightarrow> dispatch_state \<Rightarrow> world \<Rightarrow> world" where
  "offer_loop e pid st w =
     (if index st < length (candidates st)
      then (case offer_step e pid st w of
              Return w' \<Rightarrow> w'
            | Continue w' \<Rightarrow> offer_loop e pid (st\<lparr>index := Suc (index st)\<rparr>) w')
      else
        (let w1 = (if store_fails e then w
                   else snd (update_pickup pid (\<lambda>p. True)
                               (\<lambda>p. p\<lparr>status := NO_VENDOR_AVAILABLE, assigned_vendor_ref := None,
                                       assignment_expires_at := None\<rparr>) w))
         in w1\<lparr>dispatchState := (dispatchState w1)(pid := None)\<rparr>))"
  by pat_completeness auto
termination
  by (relation "measure (\<lambda>(e, pid, st, w). length (candidates st) - index st)") auto

definition tryOfferNext :: "env \<Rightarrow> string \<Rightarrow> world \<Rightarrow> world" where
  "tryOfferNext e pid w =
     (case dispatchState w pid of None \<Rightarrow> w | Some st \<Rightarrow> offer_loop e pid st w)"

subsection \<open>Dispatch\<close>

text \<open>
  \<^verbatim>\<open>dispatchPickup(pickupId, {skipVendorRefs})\<close>.  \<^verbatim>\<open>fetchPickup\<close> throws on a store
  error, which ends the call.  The two updates do not look at their result.
\<close>

definition dispatchPickup :: "env \<Rightarrow> string \<Rightarrow> string list \<Rightarrow> world \<Rightarrow> world" where
  "dispatchPickup e pid skipVendorRefs w =
     (if store_fails e then w
      else (case pickups w pid of
              None \<Rightarrow> w
            | Some pickup \<Rightarrow>
                if isTerminalStatus (status pickup) then w
                else if activeOffer pickup (clock w) then w
                else
                  let w1 = snd (update_pickup pid
                                  (\<lambda>p. status p = REQUESTED \<or> status p = NO_VENDOR_AVAILABLE
                                        \<or> status p = FINDING_VENDOR)
                                  (\<lambda>p. p\<lparr>status := FINDING_VENDOR\<rparr>) w);
                      w2 = meanwhile e w1;
                      vendors = fetchVendors e w2
                  in if vendors = []
                     then snd (update_pickup pid (\<lambda>p. True) (\<lambda>p. p\<lparr>status := NO_VENDOR_AVAILABLE\<rparr>) w2)
                     else
                       let skipRefs = skipVendorRefs @ fetchRejectedVendorRefs e pid w2;
                           cands = candidates_of (numerics e) pickup skipRefs vendors;
                           w3 = (case dispatchState w2 pid of
                                   None \<Rightarrow> w2
                                 | Some prev \<Rightarrow> clearTimeout (timer prev) w2);
                           w4 = w3\<lparr>dispatchState := (dispatchState w3)
                                   (pid \<mapsto> \<lparr>candidates = cands, index = 0, timer = None,
                                            rejectedVendorRefs = []\<rparr>)\<rparr>
                       in tryOfferNext e pid w4))"

subsection \<open>Acceptance and rejection\<close>

definition drop_session :: "string \<Rightarrow> world \<Rightarrow> world" where
  "drop_session pid w =
     (let w1 = (case dispatchState w pid of None \<Rightarrow> w | Some st \<Rightarrow> clearTimeout (timer st) w)
      in w1\<lparr>dispatchState := (dispatchState w1)(pid := None)\<rparr>)"

definition confirmVendorAcceptance ::
  "env \<Rightarrow> string \<Rightarrow> string \<Rightarrow> world \<Rightarrow> (db_error + pickup option) \<times> world" where
  "confirmVendorAcceptance e pid assignedVendorRef w =
     (case store_error e of
        Some (DbError m) \<Rightarrow> (Inl (DbError m), w)
      | _ \<Rightarrow>
          let now = clock w;
              res = update_pickup pid
                      (\<lambda>p. assigned_vendor_ref p = Some assignedVendorRef \<and> status p = FINDING_VENDOR \<and>
                           (case assignment_expires_at p of None \<Rightarrow> False | Some t \<Rightarrow> now \<le> t))
                      (\<lambda>p. p\<lparr>status := ASSIGNED, assigned_vendor_ref := Some assignedVendorRef,
                              assignment_expires_at := None\<rparr>) w
          in (case fst res of
                None \<Rightarrow> (Inr None, snd res)
              | Some data \<Rightarrow> (Inr (Some data), drop_session pid (snd res))))"

datatype reject_result = Restarted | AdvancedOutOfOrder | Advanced

definition handleVendorRejection ::
  "env \<Rightarrow> string \<Rightarrow> string \<Rightarrow> world \<Rightarrow> (db_error + reject_result option) \<times> world" where
  "handleVendorRejection e pid assignedVendorRef w =
     (let w0 = recordVendorRejection e pid assignedVendorRef w
      in case store_error e of
           Some (DbError m) \<Rightarrow> (Inl (DbError m), w0)
         | _ \<Rightarrow>
             let res = update_pickup pid
                         (\<lambda>p. status p = FINDING_VENDOR \<and> assigned_vendor_ref p = Some assignedVendorRef)
                         (\<lambda>p. p\<lparr>assigned_vendor_ref := None, assignment_expires_at := None,
                                 status := FINDING_VENDOR\<rparr>) w0;
                 w1 = snd res
             in (case fst res of
                   None \<Rightarrow> (Inr None, w1)
                 | Some cleared \<Rightarrow>
                     (case dispatchState w1 pid of
                        None \<Rightarrow> (Inr (Some Restarted), dispatchPickup e pid [assignedVendorRef] w1)
                      | Some st0 \<Rightarrow>
                          let st = st0\<lparr>rejectedVendorRefs :=
                                         List.insert assignedVendorRef (rejectedVendorRefs st0)\<rparr>;
                              curRef = (if index st < length (candidates st)
                                        then vendorIdOf (candidates st ! index st)
                                        else trim ''unknown'')
                          in if curRef \<noteq> assignedVendorRef
                             then (Inr (Some AdvancedOutOfOrder),
                                   tryOfferNext e pid
                                     (w1\<lparr>dispatchState := (dispatchState w1)(pid \<mapsto> st)\<rparr>))
                             else
                               let w2 = clearTimeout (timer st) w1;
                                   st' = st\<lparr>index := Suc (index st), timer := None\<rparr>
                               in (Inr (Some Advanced),
                                   tryOfferNext e pid
                                     (w2\<lparr>dispatchState := (dispatchState w2)(pid \<mapsto> st')\<rparr>)))))"

section \<open>routes/vendor.js: the vendor callbacks\<close>

text \<open>
  A callback request: the outcome of \<^verbatim>\<open>verifyVendorSignature\<close> (the HMAC itself is not
  modelled; \<open>Some\<close> is its error text) and the body fields the handlers read.
\<close>

record callback =
  sig_error :: "string option"
  b_pickupId :: "string option"
  b_pickup_id :: "string option"
  b_request_id :: "string option"
  b_requestId :: "string option"
  b_assignedVendorRef :: "string option"
  b_vendor_id :: "string option"
  b_vendorId :: "string option"

datatype body =
  Failure string | PickupJson pickup | RejectJson reject_result | Ignored
| Cancelled string | Poll pickup "jsnum option"

type_synonym reply = "nat \<times> body"

text \<open>The checks every callback handler starts with; \<open>Inr\<close> is the pickup id and the vendor ref.\<close>

definition callback_args :: "callback \<Rightarrow> reply + (string \<times> string)" where
  "callback_args req =
     (case sig_error req of
        Some err \<Rightarrow> Inl (401, Failure err)
      | None \<Rightarrow>
          (case first_truthy [b_pickupId req, b_pickup_id req, b_request_id req, b_requestId req] of
             None \<Rightarrow> Inl (400, Failure ''pickupId is required'')
           | Some pickupId \<Rightarrow>
               let vendorRef = (case first_truthy [b_assignedVendorRef req, b_vendor_id req, b_vendorId req] of
                                  None \<Rightarrow> []
                                | Some raw \<Rightarrow> trim raw)
               in if vendorRef = [] then Inl (400, Failure ''vendor_id (or assignedVendorRef) is required'')
                  else Inr (pickupId, vendorRef)))"

definition accept_route :: "env \<Rightarrow> callback \<Rightarrow> world \<Rightarrow> reply \<times> world" where
  "accept_route e req w =
     (case callback_args req of
        Inl r \<Rightarrow> (r, w)
      | Inr (pickupId, vendorRef) \<Rightarrow>
          (case confirmVendorAcceptance e pickupId vendorRef w of
             (Inl err, w') \<Rightarrow> ((500, Failure ''Vendor accept failed''), w')
           | (Inr None, w') \<Rightarrow>
               ((409, Failure ''Pickup not found, not assigned to this vendor, or already assigned''), w')
           | (Inr (Some result), w') \<Rightarrow> ((200, PickupJson result), w')))"

definition reject_route :: "env \<Rightarrow> callback \<Rightarrow> world \<Rightarrow> reply \<times> world" where
  "reject_route e req w =
     (case callback_args req of
        Inl r \<Rightarrow> (r, w)
      | Inr (pickupId, vendorRef) \<Rightarrow>
          (case handleVendorRejection e pickupId vendorRef w of
             (Inl err, w') \<Rightarrow> ((500, Failure ''Vendor reject failed''), w')
           | (Inr None, w') \<Rightarrow> ((200, Ignored), w')
           | (Inr (Some result), w') \<Rightarrow> ((200, RejectJson result), w')))"

definition on_the_way_route :: "env \<Rightarrow> callback \<Rightarrow> world \<Rightarrow> reply \<times> world" where
  "on_the_way_route e req w =
     (case callback_args req of
        Inl r \<Rightarrow> (r, w)
      | Inr (pickupId, vendorRef) \<Rightarrow>
          (case store_error e of
             Some EnumOnTheWayMissing \<Rightarrow> ((501, Failure ''ON_THE_WAY is not enabled in DB yet''), w)
           | Some (DbError m) \<Rightarrow> ((400, Failure m), w)
           | None \<Rightarrow>
               (case update_pickup pickupId
                       (\<lambda>p. assigned_vendor_ref p = Some vendorRef \<and>
                            (status p = ASSIGNED \<or> status p = ON_THE_WAY))
                       (\<lambda>p. p\<lparr>status := ON_THE_WAY\<rparr>) w of
                  (None, w') \<Rightarrow>
                    ((409, Failure ''Pickup not found, not assigned to this vendor, or not in a state that can be set to ON_THE_WAY''), w')
                | (Some data, w') \<Rightarrow> ((200, PickupJson data), w'))))"

definition pickup_done_route :: "env \<Rightarrow> callback \<Rightarrow> world \<Rightarrow> reply \<times> world" where
  "pickup_done_route e req w =
     (case callback_args req of
        Inl r \<Rightarrow> (r, w)
      | Inr (pickupId, vendorRef) \<Rightarrow>
          (case store_error e of
             Some (DbError m) \<Rightarrow> ((400, Failure m), w)
           | other \<Rightarrow>
               (case update_pickup pickupId
                       (\<lambda>p. assigned_vendor_ref p = Some vendorRef \<and>
                            (if other = Some EnumOnTheWayMissing then status p = ASSIGNED
                             else status p = ASSIGNED \<or> status p = ON_THE_WAY))
                       (\<lambda>p. p\<lparr>status := COMPLETED, completed_at := Some (clock w)\<rparr>) w of
                  (None, w') \<Rightarrow>
                    ((409, Failure ''Pickup not found, not assigned to this vendor, or not in a state that can be completed''), w')
                | (Some data, w') \<Rightarrow> ((200, PickupJson data), drop_session pickupId w'))))"

section \<open>The customer routes: cancel and status polling\<close>

text \<open>
  The stored procedure \<^verbatim>\<open>cancel_pickup(p_pickup_id)\<close> of the later migration;
  \<open>uid\<close> is \<^verbatim>\<open>auth.uid()\<close> and \<^verbatim>\<open>now()\<close> is the clock.
\<close>

definition cancel_pickup :: "string option \<Rightarrow> string \<Rightarrow> world \<Rightarrow> string + world" where
  "cancel_pickup uid p_pickup_id w =
     (case uid of
        None \<Rightarrow> Inl ''Not authenticated''
      | Some u \<Rightarrow>
          Inr (snd (update_pickup p_pickup_id
                      (\<lambda>p. customer_id p = u \<and> status p \<noteq> COMPLETED)
                      (\<lambda>p. p\<lparr>status := CANCELLED, cancelled_at := Some (clock w),
                              assigned_vendor_ref := None, assignment_expires_at := None\<rparr>) w)))"

text \<open>
  \<^verbatim>\<open>POST /api/pickups/:id/cancel\<close>.  \<open>jwt\<close> is the user of the bearer token, if one was
  sent; the ownership read goes through row-level security, which shows a customer
  only their own rows.  Without the procedure the handler falls back to an update
  filtered on the id alone.
\<close>

definition cancel_route :: "env \<Rightarrow> string option \<Rightarrow> string \<Rightarrow> world \<Rightarrow> reply \<times> world" where
  "cancel_route e jwt id_param w =
     (case jwt of
        None \<Rightarrow> ((401, Failure ''Missing Authorization Bearer token''), w)
      | Some uid \<Rightarrow>
          let pid = trim id_param in
          if pid = [] then ((400, Failure ''id is required''), w)
          else (case store_error e of
                  Some (DbError m) \<Rightarrow> ((400, Failure m), w)
                | _ \<Rightarrow>
                    (case (case pickups w pid of
                             None \<Rightarrow> None
                           | Some p \<Rightarrow> if customer_id p = uid then Some p else None) of
                       None \<Rightarrow> ((404, Failure ''pickup not found''), w)
                     | Some owned \<Rightarrow>
                         if status owned = COMPLETED
                         then ((409, Failure ''Completed pickups cannot be cancelled''), w)
                         else
                           (case (if cancel_rpc e then cancel_pickup (Some uid) pid w
                                  else Inr (snd (update_pickup pid (\<lambda>p. True)
                                                   (\<lambda>p. p\<lparr>status := CANCELLED, cancelled_at := Some (clock w),
                                                           assigned_vendor_ref := None,
                                                           assignment_expires_at := None\<rparr>) w))) of
                              Inl msg \<Rightarrow> ((400, Failure msg), w)
                            | Inr w1 \<Rightarrow> ((200, Cancelled pid), drop_session pid w1)))))"

record vendor_info =
  info_ref :: string
  info_latitude :: "real option"
  info_longitude :: "real option"

text \<open>
  \<^verbatim>\<open>fetchVendorInfoByRef\<close>: the preferred layout first, then the legacy one;
  \<^verbatim>\<open>maybeSingle\<close> answers with an error when more than one row matches.
\<close>

definition fetchVendorInfoByRef :: "env \<Rightarrow> string option \<Rightarrow> world \<Rightarrow> vendor_info option" where
  "fetchVendorInfoByRef e vendorRef w =
     (if \<not> truthy vendorRef \<or> store_fails e then None
      else
        let r = String vendorRef in
        (case filter (\<lambda>v. vendor_id v = Some r) (vendor_backends w) of
           [d] \<Rightarrow> Some \<lparr>info_ref = r, info_latitude = v_latitude d, info_longitude = v_longitude d\<rparr>
         | (d # d' # ds) \<Rightarrow> None
         | [] \<Rightarrow>
             (case filter (\<lambda>v. vendor_ref v = Some r) (vendor_backends w) of
                [d] \<Rightarrow> Some \<lparr>info_ref = r, info_latitude = last_latitude d,
                             info_longitude = last_longitude d\<rparr>
              | _ \<Rightarrow> None)))"

definition Math_min :: "jsnum \<Rightarrow> jsnum \<Rightarrow> jsnum" where
  "Math_min x y = (case x of NaN \<Rightarrow> NaN | Fin a \<Rightarrow> (case y of NaN \<Rightarrow> NaN | Fin b \<Rightarrow> Fin (min a b)))"

definition Math_max :: "jsnum \<Rightarrow> jsnum \<Rightarrow> jsnum" where
  "Math_max x y = (case x of NaN \<Rightarrow> NaN | Fin a \<Rightarrow> (case y of NaN \<Rightarrow> NaN | Fin b \<Rightarrow> Fin (max a b)))"

definition Math_round :: "jsnum \<Rightarrow> jsnum" where
  "Math_round x = (case x of NaN \<Rightarrow> NaN | Fin a \<Rightarrow> Fin (of_int (round a)))"

text \<open>
  The ETA block of \<^verbatim>\<open>GET /api/pickups/:id\<close>, with the handler's own copy of
  \<^verbatim>\<open>haversineDistanceKm\<close>: \<open>vendor\<close> is the result of \<^verbatim>\<open>fetchVendorInfoByRef\<close>
  (\<^verbatim>\<open>vendor?.latitude\<close> is \<^verbatim>\<open>undefined\<close> without a vendor), \<open>data\<close> the pickup row.
  \<open>None\<close> is \<^verbatim>\<open>null\<close>; a NaN is sent as \<^verbatim>\<open>null\<close> by the JSON encoder.
\<close>

definition etaMinutes :: "numerics \<Rightarrow> vendor_info option \<Rightarrow> pickup \<Rightarrow> jsnum option" where
  "etaMinutes m vendor data =
     (let vLat = (case vendor of None \<Rightarrow> Undefined | Some v \<Rightarrow> column (info_latitude v));
          vLng = (case vendor of None \<Rightarrow> Undefined | Some v \<Rightarrow> column (info_longitude v));
          pLat = column (latitude data);
          pLng = column (longitude data)
      in case (Number vLat, Number vLng, Number pLat, Number pLng) of
           (Fin a, Fin b, Fin c, Fin d) \<Rightarrow>
             let distKm = haversineDistanceKm m a b c d;
                 minutes = f_mul m (f_div m distKm (Fin 20)) (Fin 60);
                 bounded = Math_max (Fin 5) (Math_min (Fin 180) minutes)
             in Some (Math_round bounded)
         | _ \<Rightarrow> None)"

definition get_pickup_route :: "env \<Rightarrow> string option \<Rightarrow> string \<Rightarrow> world \<Rightarrow> reply" where
  "get_pickup_route e jwt id_param w =
     (case jwt of
        None \<Rightarrow> (401, Failure ''Missing Authorization Bearer token'')
      | Some uid \<Rightarrow>
          let pid = trim id_param in
          if pid = [] then (400, Failure ''id is required'')
          else (case store_error e of
                  Some (DbError m) \<Rightarrow> (400, Failure m)
                | _ \<Rightarrow>
                    (case (case pickups w pid of
                             None \<Rightarrow> None
                           | Some p \<Rightarrow> if customer_id p = uid then Some p else None) of
                       None \<Rightarrow> (404, Failure ''pickup not found'')
                     | Some data \<Rightarrow>
                         let assignedVendorRef =
                               (if truthy (assigned_vendor_ref data) then assigned_vendor_ref data else None);
                             vendor = fetchVendorInfoByRef e assignedVendorRef w
                         in (200, Poll data (etaMinutes (numerics e) vendor data)))))"

section \<open>A URL constructor for concrete runs\<close>

text \<open>
  The results below hold for every URL constructor, which is a parameter of the
  environment.  For runs on concrete inputs the constructor is instantiated with this
  reading of absolute URLs of the shape \<^verbatim>\<open>scheme://host[:port][/path][?query][#fragment]\<close>
  (scheme and host in lower case, an empty path read as \<^verbatim>\<open>/\<close>); every other string is
  refused.
\<close>

definition parse_url :: "string \<Rightarrow> url option" where
  "parse_url s =
     (let scheme = takeWhile (\<lambda>c. c \<noteq> CHR '':'') s;
          after = dropWhile (\<lambda>c. c \<noteq> CHR '':'') s
      in if scheme = [] \<or> \<not> starts_with after ''://'' then None
         else
           let rest = drop 3 after;
               in_authority = (\<lambda>c. c \<noteq> CHR ''/'' \<and> c \<noteq> CHR ''?'' \<and> c \<noteq> CHR ''#'');
               authority = takeWhile in_authority rest;
               tail = dropWhile in_authority rest;
               in_path = (\<lambda>c. c \<noteq> CHR ''?'' \<and> c \<noteq> CHR ''#'');
               path = takeWhile in_path tail;
               tail' = dropWhile in_path tail;
               query = takeWhile (\<lambda>c. c \<noteq> CHR ''#'') tail';
               fragment = dropWhile (\<lambda>c. c \<noteq> CHR ''#'') tail';
               name = (if starts_with authority ''[''
                       then takeWhile (\<lambda>c. c \<noteq> CHR '']'') authority @ '']''
                       else takeWhile (\<lambda>c. c \<noteq> CHR '':'') authority)
           in if name = [] then None
              else Some \<lparr>protocol = toLowerCase scheme @ '':'',
                         host = toLowerCase authority,
                         hostname = toLowerCase name,
                         pathname = (if path = [] then ''/'' else path),
                         search = (if query = ''?'' then [] else query),
                         hash = (if fragment = ''#'' then [] else fragment)\<rparr>)"

section \<open>Concrete scenarios\<close>

text \<open>\<^verbatim>\<open>Math.atan2(y, x)\<close> on real arguments.\<close>

definition atan2 :: "real \<Rightarrow> real \<Rightarrow> real" where
  "atan2 y x =
     (if 0 < x then arctan (y / x)
      else if x < 0 then (if 0 \<le> y then arctan (y / x) + pi else arctan (y / x) - pi)
      else if 0 < y then pi / 2
      else if y < 0 then - (pi / 2)
      else 0)"

text \<open>
  Exact arithmetic, for the runs on concrete inputs: nothing is rounded.  The doubles
  of the runtime differ from it by rounding errors, which are many orders of
  magnitude below the differences of the distances in the runs below.
\<close>

definition exact :: numerics where
  "exact = \<lparr>fl = (\<lambda>x. x), Math_PI = pi, Math_sin = sin, Math_cos = cos, Math_atan2 = atan2,
            pow2 = (\<lambda>x. x\<^sup>2), sort_with_nan = (\<lambda>rows. rows)\<rparr>"

text \<open>
  A development environment in which every vendor endpoint answers 200 after 150 ms,
  the store answers, both optional database objects exist and nothing else runs
  during a dispatch.
\<close>

definition env0 :: env where
  "env0 = \<lparr>production = False, numerics = exact, new_URL = parse_url, fetch = (\<lambda>u. HttpStatus 200),
           fetch_ms = (\<lambda>u. 150), store_error = None, rejection_log = True, cancel_rpc = True,
           meanwhile = (\<lambda>w. w)\<rparr>"

text \<open>A freshly created pickup of customer \<open>c1\<close> without coordinates (they are optional).\<close>

definition row0 :: pickup where
  "row0 = \<lparr>customer_id = ''c1'', status = REQUESTED, latitude = None, longitude = None,
           assigned_vendor_ref = None, assignment_expires_at = None,
           cancelled_at = None, completed_at = None\<rparr>"

text \<open>The same pickup while it is offered to vendor \<open>V1\<close> until time 120000.\<close>

definition row_offered :: pickup where
  "row_offered = row0\<lparr>status := FINDING_VENDOR, assigned_vendor_ref := Some ''V1'',
                      assignment_expires_at := Some 120000\<rparr>"

text \<open>A vendor directory row of the preferred layout, without or with a position.\<close>

definition backend :: "string \<Rightarrow> string \<Rightarrow> vendor" where
  "backend name u =
     \<lparr>vendor_id = Some name, vendor_ref = None, row_id = None, offer_url = Some u,
      endpoint = None, endpoint_offer_url = None, last_latitude = None, v_latitude = None,
      lat = None, last_longitude = None, v_longitude = None, lon = None, lng = None\<rparr>"

definition backend_at :: "string \<Rightarrow> string \<Rightarrow> real \<Rightarrow> real \<Rightarrow> vendor" where
  "backend_at name u la lo = (backend name u)\<lparr>v_latitude := Some la, v_longitude := Some lo\<rparr>"

definition world_of :: "pickup \<Rightarrow> vendor list \<Rightarrow> world" where
  "world_of p vs =
     \<lparr>pickups = [''p1'' \<mapsto> p], vendor_backends = vs, pickup_vendor_rejections = [],
      dispatchState = Map.empty, timers = Map.empty, next_timer = 0, clock = 0,
      store_writes = 0, trace = []\<rparr>"

text \<open>A signed callback of a vendor about pickup \<open>p1\<close>.\<close>

definition callback_of :: "string \<Rightarrow> callback" where
  "callback_of v =
     \<lparr>sig_error = None, b_pickupId = Some ''p1'', b_pickup_id = None, b_request_id = None,
      b_requestId = None, b_assignedVendorRef = None, b_vendor_id = Some v, b_vendorId = None\<rparr>"

text \<open>The endpoint of the first of two vendors refuses the connection.\<close>

definition env_v1_down :: env where
  "env_v1_down =
     env0\<lparr>fetch := (\<lambda>u. if u = ''http://v1.example.com/api/offer''
                         then NetworkError ''ECONNREFUSED'' else HttpStatus 200)\<rparr>"

definition two_vendors :: "vendor list" where
  "two_vendors = [backend ''V1'' ''http://v1.example.com'', backend ''V2'' ''http://v2.example.com'']"

text \<open>The customer's cancel request is handled while a dispatch awaits the vendor directory.\<close>

definition env_cancel_race :: env where
  "env_cancel_race = env0\<lparr>meanwhile := (\<lambda>w. snd (cancel_route env0 (Some ''c1'') ''p1'' w))\<rparr>"

section \<open>Facts about the store primitives\<close>

lemma update_pickup_miss:
  "(\<forall>p. pickups w pid = Some p \<longrightarrow> \<not> cond p) \<Longrightarrow> update_pickup pid cond f w = (None, w)"
  by (auto simp: update_pickup_def split: option.splits)

lemma update_pickup_hit:
  "pickups w pid = Some p \<Longrightarrow> cond p \<Longrightarrow>
   update_pickup pid cond f w =
     (Some (f p), w\<lparr>pickups := (pickups w)(pid \<mapsto> f p), store_writes := Suc (store_writes w)\<rparr>)"
  by (simp add: update_pickup_def)

lemma not_store_fails:
  "\<not> store_fails e \<Longrightarrow> (case store_error e of Some (DbError m) \<Rightarrow> f m | _ \<Rightarrow> g) = g"
  by (auto simp: store_fails_def split: option.splits db_error.splits)

lemma pickups_drop_session [simp]: "pickups (drop_session pid w) = pickups w"
  by (simp add: drop_session_def clearTimeout_def Let_def split: option.splits)

lemma vendorIdOf_backend:
  "vendorIdOf (backend ''V1'' u) = ''V1''" "vendorIdOf (backend ''V2'' u) = ''V2''"
  by (simp_all add: vendorIdOf_def backend_def trim_def is_space_def)

lemma sort_key_const: "(\<forall>x \<in> set xs. f x = c) \<Longrightarrow> sort_key f xs = xs"
proof (induction xs)
  case Nil
  then show ?case by simp
next
  case (Cons x xs)
  then have "sort_key f xs = xs" by simp
  moreover have "insort_key f x xs = x # xs"
    using Cons.prems by (cases xs) auto
  ultimately show ?case by simp
qed

lemma px_py_absent:
  assumes "latitude p = None \<or> latitude p = Some 0 \<or> longitude p = None \<or> longitude p = Some 0"
  shows "pickup_px p = None \<or> pickup_py p = None"
  using assms by (auto simp: pickup_px_def pickup_py_def column_def)

lemma ranked_without_pickup_coordinates:
  assumes "latitude p = None \<or> latitude p = Some 0 \<or> longitude p = None \<or> longitude p = Some 0"
  shows "ranked m p vendors = map (\<lambda>v. (v, Fin MAX_SAFE_INTEGER)) vendors"
proof -
  have d: "distanceKm m (pickup_px p) (pickup_py p) u = Fin MAX_SAFE_INTEGER" for u
    using px_py_absent [OF assms] by (auto simp: distanceKm_def Let_def split: option.splits)
  have s: "sort_key (\<lambda>r. the_num (snd r)) (map (\<lambda>v. (v, Fin MAX_SAFE_INTEGER)) vendors)
             = map (\<lambda>v. (v, Fin MAX_SAFE_INTEGER)) vendors"
    by (rule sort_key_const [where c = MAX_SAFE_INTEGER]) (auto simp: the_num_def)
  show ?thesis
    by (simp add: ranked_def d s list_all_iff Let_def)
qed

section \<open>The advance loop after a failed send\<close>

lemma offerUrlOf_v1:
  "offerUrlOf env_v1_down (backend n ''http://v1.example.com'') = Some ''http://v1.example.com/api/offer''"
  by (simp add: offerUrlOf_def env_v1_down_def env0_def backend_def trim_def is_space_def parse_url_def
      toLowerCase_def lower_char_def href_def strip_trailing_slashes_def Let_def)

lemma validate_v1: "ok (validateOfferUrl env_v1_down (Some ''http://v1.example.com/api/offer''))"
  by (simp add: validateOfferUrl_def env_v1_down_def env0_def truthy_def String_def parse_url_def
      toLowerCase_def lower_char_def Let_def)

lemma send_v1:
  "sendOfferToVendor env_v1_down (backend ''V1'' ''http://v1.example.com'') pid w =
   (Inl (FetchThrew ''ECONNREFUSED''),
    w\<lparr>clock := clock w + 150,
      trace := Warned ''http_error'' # Posted ''http://v1.example.com/api/offer'' ''V1'' pid # trace w\<rparr>)"
  by (simp add: sendOfferToVendor_def offerUrlOf_v1 validate_v1 vendorIdOf_backend Let_def String_def emit_def)
     (simp add: env_v1_down_def env0_def emit_def)

text \<open>
  Claim C1 says that when the send to the reserved candidate fails, the engine clears
  the reservation before it goes on to the next candidate.  The code does not: the
  \<^verbatim>\<open>catch\<close> block only increments the index.  Run on a requested pickup and two
  vendors of which the first refuses the connection: the row stays reserved for the
  first vendor until time 120000, so the reservation for the second vendor matches
  no row, the loop sees its own reservation as an active offer and returns; the
  second vendor is never posted an offer and no timer is armed.
\<close>

theorem failed_send_keeps_reservation:
  "pickups (dispatchPickup env_v1_down ''p1'' [] (world_of row0 two_vendors)) ''p1''
     = Some (row0\<lparr>status := FINDING_VENDOR, assigned_vendor_ref := Some ''V1'',
                   assignment_expires_at := Some 120000\<rparr>)
   \<and> trace (dispatchPickup env_v1_down ''p1'' [] (world_of row0 two_vendors))
     = [Warned ''offer_failed'', Warned ''http_error'',
        Posted ''http://v1.example.com/api/offer'' ''V1'' ''p1'']
   \<and> timers (dispatchPickup env_v1_down ''p1'' [] (world_of row0 two_vendors)) = Map.empty
   \<and> map_option index (dispatchState (dispatchPickup env_v1_down ''p1'' [] (world_of row0 two_vendors)) ''p1'')
     = Some 1"
proof -
  have nf: "\<not> store_fails env_v1_down" "meanwhile env_v1_down = (\<lambda>w. w)" "rejection_log env_v1_down"
    by (simp_all add: store_fails_def env_v1_down_def env0_def)
  have "latitude row0 = None \<or> latitude row0 = Some 0 \<or> longitude row0 = None \<or> longitude row0 = Some 0"
    by (simp add: row0_def)
  then have cands: "candidates_of (numerics env_v1_down) row0 [] two_vendors = two_vendors"
    by (simp add: candidates_of_def ranked_without_pickup_coordinates comp_def Let_def)
  show ?thesis
    by (simp add: dispatchPickup_def nf cands [unfolded row0_def two_vendors_def] world_of_def row0_def
        isTerminalStatus_def activeOffer_def update_pickup_def fetchVendors_def
        fetchRejectedVendorRefs_def tryOfferNext_def Let_def offer_step_def
        clearExpiredOfferIfAny_def two_vendors_def vendorIdOf_backend send_v1
        advance_def emit_def clearTimeout_def truthy_def)
qed

section \<open>Terminal statuses and the give-up updates\<close>

text \<open>
  Claim C2 says that no operation moves a pickup out of \<^verbatim>\<open>COMPLETED\<close> or
  \<^verbatim>\<open>CANCELLED\<close>.  The two give-up updates are filtered on the id alone.  First run: a
  dispatch of a requested pickup finds the vendor directory empty while the
  customer's cancel is committed during the directory query; the row ends
  \<^verbatim>\<open>NO_VENDOR_AVAILABLE\<close> with \<^verbatim>\<open>cancelled_at\<close> set.  Second run: the advance loop on
  a cancelled pickup whose session has no candidate left.
\<close>

theorem give_up_overwrites_cancelled:
  "map_option (\<lambda>p. (status p, cancelled_at p))
     (pickups (dispatchPickup env_cancel_race ''p1'' [] (world_of row0 [])) ''p1'')
     = Some (NO_VENDOR_AVAILABLE, Some 0)
   \<and> map_option status
       (pickups (tryOfferNext env0 ''p1''
                  ((world_of (row0\<lparr>status := CANCELLED, cancelled_at := Some 0\<rparr>) [])
                     \<lparr>dispatchState := [''p1'' \<mapsto> \<lparr>candidates = [], index = 0, timer = None,
                                                   rejectedVendorRefs = []\<rparr>]\<rparr>)) ''p1'')
     = Some NO_VENDOR_AVAILABLE"
  by (simp add: dispatchPickup_def env_cancel_race_def env0_def store_fails_def world_of_def row0_def
        isTerminalStatus_def activeOffer_def update_pickup_def fetchVendors_def Let_def
        cancel_route_def cancel_pickup_def trim_def is_space_def drop_session_def tryOfferNext_def)

section \<open>Acceptance\<close>

text \<open>
  Claim C3: \<^verbatim>\<open>confirmVendorAcceptance\<close> sets the status to \<^verbatim>\<open>ASSIGNED\<close> and clears
  \<^verbatim>\<open>assignment_expires_at\<close> exactly when the row is in \<^verbatim>\<open>FINDING_VENDOR\<close>, is
  offered to the calling vendor and its deadline is not before now.  In every other
  case (no row, another vendor, another status, no deadline, a deadline that has
  passed) it returns \<^verbatim>\<open>null\<close> and changes nothing, and the accept handler answers
  409.  The store is assumed to answer.
\<close>

theorem confirm_assignment_strict:
  assumes up: "\<not> store_fails e"
  shows "(\<forall>p t. pickups w pid = Some p \<and> status p = FINDING_VENDOR \<and> assigned_vendor_ref p = Some v
              \<and> assignment_expires_at p = Some t \<and> clock w \<le> t \<longrightarrow>
            (\<exists>w'. confirmVendorAcceptance e pid v w
                     = (Inr (Some (p\<lparr>status := ASSIGNED, assignment_expires_at := None\<rparr>)), w')
                 \<and> pickups w' = (pickups w)(pid \<mapsto> p\<lparr>status := ASSIGNED, assignment_expires_at := None\<rparr>)))
       \<and> (\<not> (\<exists>p t. pickups w pid = Some p \<and> status p = FINDING_VENDOR \<and> assigned_vendor_ref p = Some v
                  \<and> assignment_expires_at p = Some t \<and> clock w \<le> t) \<longrightarrow>
            confirmVendorAcceptance e pid v w = (Inr None, w)
          \<and> (callback_args req = Inr (pid, v) \<longrightarrow>
               fst (fst (accept_route e req w)) = 409 \<and> snd (accept_route e req w) = w))"
proof (intro conjI allI impI)
  fix p t
  assume g: "pickups w pid = Some p \<and> status p = FINDING_VENDOR \<and> assigned_vendor_ref p = Some v
              \<and> assignment_expires_at p = Some t \<and> clock w \<le> t"
  let ?c = "\<lambda>p. assigned_vendor_ref p = Some v \<and> status p = FINDING_VENDOR \<and>
                 (case assignment_expires_at p of None \<Rightarrow> False | Some t \<Rightarrow> clock w \<le> t)"
  let ?f = "\<lambda>p. p\<lparr>status := ASSIGNED, assigned_vendor_ref := Some v, assignment_expires_at := None\<rparr>"
  from g have c: "?c p" by simp
  from g have fp: "?f p = p\<lparr>status := ASSIGNED, assignment_expires_at := None\<rparr>" by simp
  from g have "pickups w pid = Some p" by simp
  from update_pickup_hit [OF this, of ?c ?f] c
  have "update_pickup pid ?c ?f w =
          (Some (?f p), w\<lparr>pickups := (pickups w)(pid \<mapsto> ?f p), store_writes := Suc (store_writes w)\<rparr>)"
    by blast
  then show "\<exists>w'. confirmVendorAcceptance e pid v w
                     = (Inr (Some (p\<lparr>status := ASSIGNED, assignment_expires_at := None\<rparr>)), w')
                 \<and> pickups w' = (pickups w)(pid \<mapsto> p\<lparr>status := ASSIGNED, assignment_expires_at := None\<rparr>)"
    using up fp by (simp add: confirmVendorAcceptance_def not_store_fails Let_def)
next
  assume n: "\<not> (\<exists>p t. pickups w pid = Some p \<and> status p = FINDING_VENDOR \<and> assigned_vendor_ref p = Some v
                  \<and> assignment_expires_at p = Some t \<and> clock w \<le> t)"
  let ?c = "\<lambda>p. assigned_vendor_ref p = Some v \<and> status p = FINDING_VENDOR \<and>
                 (case assignment_expires_at p of None \<Rightarrow> False | Some t \<Rightarrow> clock w \<le> t)"
  from n have "\<forall>p. pickups w pid = Some p \<longrightarrow> \<not> ?c p"
    by (auto split: option.splits)
  from update_pickup_miss [OF this]
  show r: "confirmVendorAcceptance e pid v w = (Inr None, w)"
    using up by (simp add: confirmVendorAcceptance_def not_store_fails Let_def)
  { assume "callback_args req = Inr (pid, v)"
    then show "fst (fst (accept_route e req w)) = 409" using r by (simp add: accept_route_def)
  }
  { assume "callback_args req = Inr (pid, v)"
    then show "snd (accept_route e req w) = w" using r by (simp add: accept_route_def)
  }
qed

text \<open>
  The theorem at the offer of \<open>row_offered\<close>: an accept of \<open>V1\<close> five seconds after the
  deadline changes nothing and is answered 409; an accept at time 30000 assigns.
\<close>

theorem confirm_assignment_strict_witness:
  "confirmVendorAcceptance env0 ''p1'' ''V1'' ((world_of row_offered [])\<lparr>clock := 125000\<rparr>)
     = (Inr None, (world_of row_offered [])\<lparr>clock := 125000\<rparr>)
   \<and> fst (fst (accept_route env0 (callback_of ''V1'') ((world_of row_offered [])\<lparr>clock := 125000\<rparr>))) = 409
   \<and> (\<exists>w'. confirmVendorAcceptance env0 ''p1'' ''V1'' ((world_of row_offered [])\<lparr>clock := 30000\<rparr>)
              = (Inr (Some (row_offered\<lparr>status := ASSIGNED, assignment_expires_at := None\<rparr>)), w'))"
  using confirm_assignment_strict [of env0 "(world_of row_offered [])\<lparr>clock := 125000\<rparr>" "''p1''" "''V1''" "callback_of ''V1''"]
        confirm_assignment_strict [of env0 "(world_of row_offered [])\<lparr>clock := 30000\<rparr>" "''p1''" "''V1''" "callback_of ''V1''"]
  by (auto simp add: env0_def store_fails_def world_of_def row_offered_def row0_def callback_of_def
        callback_args_def trim_def is_space_def)

section \<open>Callbacks that lose the race\<close>

lemma store_ok_not_fails: "store_error e = None \<Longrightarrow> \<not> store_fails e"
  by (simp add: store_fails_def)

text \<open>
  Claim C4, as amended: when the conditional update behind a callback matches no row
  (a lost race or another vendor), the accept, on-the-way and pickup-done handlers
  answer 409.  The reject handler does not: \<^verbatim>\<open>handleVendorRejection\<close> returns \<^verbatim>\<open>null\<close>
  and the handler answers 200 with \<^verbatim>\<open>{ignored: true}\<close>.  The request is signed and
  names the pickup and the vendor, and the store answers.
\<close>

theorem lost_race_replies:
  assumes up: "store_error e = None" and args: "callback_args req = Inr (pid, v)"
  shows "(\<not> (\<exists>p t. pickups w pid = Some p \<and> status p = FINDING_VENDOR \<and> assigned_vendor_ref p = Some v
                  \<and> assignment_expires_at p = Some t \<and> clock w \<le> t) \<longrightarrow>
            fst (fst (accept_route e req w)) = 409)
       \<and> (\<not> (\<exists>p. pickups w pid = Some p \<and> assigned_vendor_ref p = Some v
                  \<and> (status p = ASSIGNED \<or> status p = ON_THE_WAY)) \<longrightarrow>
            fst (fst (on_the_way_route e req w)) = 409 \<and> fst (fst (pickup_done_route e req w)) = 409)
       \<and> (\<not> (\<exists>p. pickups w pid = Some p \<and> status p = FINDING_VENDOR \<and> assigned_vendor_ref p = Some v) \<longrightarrow>
            fst (handleVendorRejection e pid v w) = Inr None \<and> fst (reject_route e req w) = (200, Ignored))"
proof (intro conjI impI)
  assume n: "\<not> (\<exists>p t. pickups w pid = Some p \<and> status p = FINDING_VENDOR \<and> assigned_vendor_ref p = Some v
                  \<and> assignment_expires_at p = Some t \<and> clock w \<le> t)"
  let ?c = "\<lambda>p. assigned_vendor_ref p = Some v \<and> status p = FINDING_VENDOR \<and>
                 (case assignment_expires_at p of None \<Rightarrow> False | Some t \<Rightarrow> clock w \<le> t)"
  from n have "\<forall>p. pickups w pid = Some p \<longrightarrow> \<not> ?c p"
    by (auto split: option.splits)
  from update_pickup_miss [OF this]
  show "fst (fst (accept_route e req w)) = 409"
    using up args by (simp add: accept_route_def confirmVendorAcceptance_def Let_def)
next
  assume n: "\<not> (\<exists>p. pickups w pid = Some p \<and> assigned_vendor_ref p = Some v
                  \<and> (status p = ASSIGNED \<or> status p = ON_THE_WAY))"
  let ?c = "\<lambda>p. assigned_vendor_ref p = Some v \<and> (status p = ASSIGNED \<or> status p = ON_THE_WAY)"
  from n have m: "\<forall>p. pickups w pid = Some p \<longrightarrow> \<not> ?c p"
    by auto
  from update_pickup_miss [OF m]
  show "fst (fst (on_the_way_route e req w)) = 409"
    using up args by (simp add: on_the_way_route_def)
  from update_pickup_miss [OF m]
  show "fst (fst (pickup_done_route e req w)) = 409"
    using up args by (simp add: pickup_done_route_def)
next
  assume n: "\<not> (\<exists>p. pickups w pid = Some p \<and> status p = FINDING_VENDOR \<and> assigned_vendor_ref p = Some v)"
  let ?c = "\<lambda>p. status p = FINDING_VENDOR \<and> assigned_vendor_ref p = Some v"
  let ?w0 = "recordVendorRejection e pid v w"
  have "pickups ?w0 = pickups w" by (simp add: recordVendorRejection_def)
  with n have "\<forall>p. pickups ?w0 pid = Some p \<longrightarrow> \<not> ?c p"
    by auto
  from update_pickup_miss [OF this]
  show r: "fst (handleVendorRejection e pid v w) = Inr None"
    using up by (simp add: handleVendorRejection_def Let_def)
  then show "fst (reject_route e req w) = (200, Ignored)"
    using args by (cases "handleVendorRejection e pid v w") (simp add: reject_route_def)
qed

text \<open>The theorem at the offer of \<open>row_offered\<close>, held by \<open>V1\<close>, for callbacks of \<open>V2\<close>.\<close>

theorem lost_race_replies_witness:
  "fst (fst (accept_route env0 (callback_of ''V2'') (world_of row_offered []))) = 409
   \<and> fst (fst (on_the_way_route env0 (callback_of ''V2'') (world_of row_offered []))) = 409
   \<and> fst (fst (pickup_done_route env0 (callback_of ''V2'') (world_of row_offered []))) = 409
   \<and> fst (reject_route env0 (callback_of ''V2'') (world_of row_offered [])) = (200, Ignored)"
  using lost_race_replies [of env0 "callback_of ''V2''" "''p1''" "''V2''" "world_of row_offered []"]
  by (simp add: env0_def world_of_def row_offered_def row0_def callback_of_def
        callback_args_def trim_def is_space_def)

text \<open>
  Claim C4 as stated fails for the reject handler: a reject of \<open>V2\<close> while the pickup
  is offered to \<open>V1\<close> matches no row and is answered 200, not 409.
\<close>

theorem late_reject_is_not_409:
  "fst (handleVendorRejection env0 ''p1'' ''V2'' (world_of row_offered [])) = Inr None
   \<and> fst (reject_route env0 (callback_of ''V2'') (world_of row_offered [])) = (200, Ignored)"
  by (simp add: reject_route_def handleVendorRejection_def recordVendorRejection_def
        update_pickup_def env0_def store_fails_def world_of_def row_offered_def row0_def
        callback_of_def callback_args_def trim_def is_space_def Let_def)

section \<open>Loopback offer URLs\<close>

lemma validate_loopback:
  assumes "s \<noteq> []" "new_URL e s = Some u"
    and "toLowerCase (hostname u) = ''localhost'' \<or> toLowerCase (hostname u) = ''127.0.0.1''"
  shows "\<not> ok (validateOfferUrl e (Some s))"
  using assms by (auto simp: validateOfferUrl_def truthy_def String_def Let_def)

text \<open>
  Claim C5, as amended.  Let the vendor's normalised offer URL be \<open>s\<close>, with the
  host \<^verbatim>\<open>localhost\<close> or \<^verbatim>\<open>127.0.0.1\<close>.  In production the send fails with an
  invalid-URL error and nothing is posted.  Outside production the offer is posted,
  with the warning \<^verbatim>\<open>offer_url_localhost_allowed\<close>, only when \<open>s\<close> contains the text
  \<^verbatim>\<open>localhost\<close> (the send then succeeds exactly when the vendor answers 2xx); a
  loopback URL without that text fails as in production.  The statement is silent on
  the IPv6 loopback address.
\<close>

theorem loopback_offer_url:
  assumes url: "offerUrlOf e v = Some s" "s \<noteq> []" and parsed: "new_URL e s = Some u"
    and loopback: "toLowerCase (hostname u) = ''localhost'' \<or> toLowerCase (hostname u) = ''127.0.0.1''"
  shows "(production e \<or> \<not> includes_str s ''localhost'' \<longrightarrow>
            (\<exists>r. sendOfferToVendor e v pid w
                   = (Inl (InvalidOfferUrl r), emit (Warned ''offer_url_invalid'') w)))
       \<and> (\<not> production e \<and> includes_str s ''localhost'' \<longrightarrow>
            Posted s (vendorIdOf v) pid \<in> set (trace (snd (sendOfferToVendor e v pid w)))
          \<and> Warned ''offer_url_localhost_allowed'' \<in> set (trace (snd (sendOfferToVendor e v pid w)))
          \<and> (fst (sendOfferToVendor e v pid w) = Inr True
               \<longleftrightarrow> (\<exists>code. fetch e s = HttpStatus code \<and> 200 \<le> code \<and> code \<le> 299)))"
proof -
  have bad: "\<not> ok (validateOfferUrl e (Some s))"
    using validate_loopback [OF url(2) parsed loopback] .
  show ?thesis
  proof (intro conjI impI)
    assume "production e \<or> \<not> includes_str s ''localhost''"
    then show "\<exists>r. sendOfferToVendor e v pid w
                   = (Inl (InvalidOfferUrl r), emit (Warned ''offer_url_invalid'') w)"
      using bad url(1) by (auto simp: sendOfferToVendor_def Let_def String_def)
  next
    assume dev: "\<not> production e \<and> includes_str s ''localhost''"
    then show "Posted s (vendorIdOf v) pid \<in> set (trace (snd (sendOfferToVendor e v pid w)))"
      using bad url(1)
      by (auto simp: sendOfferToVendor_def Let_def String_def emit_def split: fetch_result.splits)
    from dev show "Warned ''offer_url_localhost_allowed'' \<in> set (trace (snd (sendOfferToVendor e v pid w)))"
      using bad url(1)
      by (auto simp: sendOfferToVendor_def Let_def String_def emit_def split: fetch_result.splits)
    from dev show "fst (sendOfferToVendor e v pid w) = Inr True
               \<longleftrightarrow> (\<exists>code. fetch e s = HttpStatus code \<and> 200 \<le> code \<and> code \<le> 299)"
      using bad url(1)
      by (auto simp: sendOfferToVendor_def Let_def String_def emit_def split: fetch_result.splits)
  qed
qed
lemma parse_localhost:
  "parse_url ''http://localhost:4000'' = Some \<lparr>protocol = ''http:'', host = ''localhost:4000'',
     hostname = ''localhost'', pathname = ''/'', search = [], hash = []\<rparr>"
  "parse_url ''http://localhost:4000/api/offer'' = Some \<lparr>protocol = ''http:'', host = ''localhost:4000'',
     hostname = ''localhost'', pathname = ''/api/offer'', search = [], hash = []\<rparr>"
  by (simp_all add: parse_url_def toLowerCase_def lower_char_def Let_def)

lemma parse_127:
  "parse_url ''http://127.0.0.1:4000'' = Some \<lparr>protocol = ''http:'', host = ''127.0.0.1:4000'',
     hostname = ''127.0.0.1'', pathname = ''/'', search = [], hash = []\<rparr>"
  "parse_url ''http://127.0.0.1:4000/api/offer'' = Some \<lparr>protocol = ''http:'', host = ''127.0.0.1:4000'',
     hostname = ''127.0.0.1'', pathname = ''/api/offer'', search = [], hash = []\<rparr>"
  by (simp_all add: parse_url_def toLowerCase_def lower_char_def Let_def)

lemma offerUrlOf_localhost:
  "new_URL e = parse_url \<Longrightarrow>
   offerUrlOf e (backend n ''http://localhost:4000'') = Some ''http://localhost:4000/api/offer''"
  by (simp add: offerUrlOf_def backend_def trim_def is_space_def parse_localhost href_def
      strip_trailing_slashes_def Let_def)

lemma offerUrlOf_127:
  "new_URL e = parse_url \<Longrightarrow>
   offerUrlOf e (backend n ''http://127.0.0.1:4000'') = Some ''http://127.0.0.1:4000/api/offer''"
  by (simp add: offerUrlOf_def backend_def trim_def is_space_def parse_127 href_def
      strip_trailing_slashes_def Let_def)

text \<open>
  The theorem for \<^verbatim>\<open>http://localhost:4000\<close>: refused in production, posted (and
  answered 200) in development.
\<close>

theorem loopback_offer_url_witness:
  "(\<exists>r. sendOfferToVendor (env0\<lparr>production := True\<rparr>) (backend ''V1'' ''http://localhost:4000'') ''p1''
          (world_of row_offered [])
        = (Inl (InvalidOfferUrl r), emit (Warned ''offer_url_invalid'') (world_of row_offered [])))
   \<and> Posted ''http://localhost:4000/api/offer'' ''V1'' ''p1''
       \<in> set (trace (snd (sendOfferToVendor env0 (backend ''V1'' ''http://localhost:4000'') ''p1''
                             (world_of row_offered []))))
   \<and> fst (sendOfferToVendor env0 (backend ''V1'' ''http://localhost:4000'') ''p1''
            (world_of row_offered [])) = Inr True"
proof -
  have n: "new_URL env0 = parse_url" "new_URL (env0\<lparr>production := True\<rparr>) = parse_url"
    by (simp_all add: env0_def)
  have h: "toLowerCase ''localhost'' = ''localhost''"
    by (simp add: toLowerCase_def lower_char_def)
  have i: "includes_str ''http://localhost:4000/api/offer'' ''localhost''"
    by simp
  show ?thesis
    using loopback_offer_url [of "env0\<lparr>production := True\<rparr>" "backend ''V1'' ''http://localhost:4000''"
            "''http://localhost:4000/api/offer''" _ "''p1''" "world_of row_offered []",
            OF offerUrlOf_localhost [OF n(2)]]
          loopback_offer_url [of env0 "backend ''V1'' ''http://localhost:4000''"
            "''http://localhost:4000/api/offer''" _ "''p1''" "world_of row_offered []",
            OF offerUrlOf_localhost [OF n(1)]]
    by (simp add: n parse_localhost h i vendorIdOf_backend) (simp add: env0_def)
qed

text \<open>
  Claim C5 as stated fails outside production: the loopback URL
  \<^verbatim>\<open>http://127.0.0.1:4000\<close> is not permitted there; the send fails with reason
  \<^verbatim>\<open>localhost\<close> and nothing is posted.
\<close>

theorem loopback_ip_refused_in_development:
  "\<not> production env0
   \<and> sendOfferToVendor env0 (backend ''V1'' ''http://127.0.0.1:4000'') ''p1'' (world_of row_offered [])
     = (Inl (InvalidOfferUrl (Some ''localhost'')),
        emit (Warned ''offer_url_invalid'') (world_of row_offered []))"
proof -
  have n: "new_URL env0 = parse_url" by (simp add: env0_def)
  have h: "toLowerCase ''127.0.0.1'' = ''127.0.0.1''"
    by (simp add: toLowerCase_def lower_char_def)
  have v: "validateOfferUrl env0 (Some ''http://127.0.0.1:4000/api/offer'')
             = \<lparr>ok = False, reason = Some ''localhost''\<rparr>"
    by (simp add: validateOfferUrl_def truthy_def String_def n parse_127 h)
  have i: "\<not> includes_str ''http://127.0.0.1:4000/api/offer'' ''localhost''"
    by simp
  show ?thesis
    by (simp add: sendOfferToVendor_def offerUrlOf_127 [OF n] v String_def i Let_def)
       (simp add: env0_def)
qed

text \<open>
  The third comparison of \<^verbatim>\<open>validateOfferUrl\<close>, with \<^verbatim>\<open>::1\<close>, does not meet the host
  name of an IPv6 loopback URL, which keeps its brackets: in production
  \<^verbatim>\<open>http://[::1]:4000\<close> passes the validation and is posted.
\<close>

lemma ipv6_loopback_posted_in_production:
  "ok (validateOfferUrl (env0\<lparr>production := True\<rparr>) (Some ''http://[::1]:4000/api/offer''))
   \<and> fst (sendOfferToVendor (env0\<lparr>production := True\<rparr>) (backend ''V1'' ''http://[::1]:4000'') ''p1''
            (world_of row_offered [])) = Inr True"
proof -
  have p: "parse_url ''http://[::1]:4000'' = Some \<lparr>protocol = ''http:'', host = ''[::1]:4000'',
             hostname = ''[::1]'', pathname = ''/'', search = [], hash = []\<rparr>"
    "parse_url ''http://[::1]:4000/api/offer'' = Some \<lparr>protocol = ''http:'', host = ''[::1]:4000'',
             hostname = ''[::1]'', pathname = ''/api/offer'', search = [], hash = []\<rparr>"
    by (simp_all add: parse_url_def toLowerCase_def lower_char_def Let_def)
  have n: "new_URL (env0\<lparr>production := True\<rparr>) = parse_url" by (simp add: env0_def)
  have o: "offerUrlOf (env0\<lparr>production := True\<rparr>) (backend ''V1'' ''http://[::1]:4000'')
             = Some ''http://[::1]:4000/api/offer''"
    by (simp add: offerUrlOf_def n backend_def trim_def is_space_def p href_def
        strip_trailing_slashes_def Let_def)
  have v: "validateOfferUrl (env0\<lparr>production := True\<rparr>) (Some ''http://[::1]:4000/api/offer'')
             = \<lparr>ok = True, reason = None\<rparr>"
    by (simp add: validateOfferUrl_def truthy_def String_def n p toLowerCase_def lower_char_def)
  show ?thesis
    by (simp add: sendOfferToVendor_def o v String_def Let_def) (simp add: env0_def)
qed

section \<open>Ranking\<close>

lemma exact_ops [simp]:
  "f_add exact (Fin a) (Fin b) = Fin (a + b)"
  "f_sub exact (Fin a) (Fin b) = Fin (a - b)"
  "f_mul exact (Fin a) (Fin b) = Fin (a * b)"
  "f_div exact (Fin a) (Fin b) = Fin (a / b)"
  "f_sin exact (Fin a) = Fin (sin a)"
  "f_cos exact (Fin a) = Fin (cos a)"
  "f_pow2 exact (Fin a) = Fin (a\<^sup>2)"
  "f_atan2 exact (Fin a) (Fin b) = Fin (atan2 a b)"
  "f_sqrt exact (Fin a) = (if a < 0 then NaN else Fin (sqrt a))"
  by (simp_all add: f_add_def f_sub_def f_mul_def f_div_def f_bin_def f_sin_def f_cos_def
        f_pow2_def f_atan2_def f_sqrt_def exact_def)

text \<open>In exact arithmetic the distance is a number whenever \<open>a\<close> lies between 0 and 1.\<close>

lemma haversine_exact:
  assumes "(sin ((lat2 - lat1) * pi / 180 / 2))\<^sup>2
             + cos (lat1 * pi / 180) * cos (lat2 * pi / 180) * (sin ((lon2 - lon1) * pi / 180 / 2))\<^sup>2 = a"
    and "0 \<le> a" "a \<le> 1"
  shows "haversineDistanceKm exact lat1 lon1 lat2 lon2 = Fin (6371 * (2 * atan2 (sqrt a) (sqrt (1 - a))))"
proof -
  have pi: "Math_PI exact = pi" by (simp add: exact_def)
  show ?thesis
    unfolding haversineDistanceKm_def Let_def pi exact_ops assms(1)
    using assms(2,3) by simp
qed

lemma atan2_one_zero: "atan2 1 0 = pi / 2"
  by (simp add: atan2_def)

lemma atan2_diag: "0 < x \<Longrightarrow> atan2 x x = pi / 4"
  by (simp add: atan2_def arctan_one)

lemma haversine_pole_to_pole: "haversineDistanceKm exact 90 90 (- 90) 90 = Fin (6371 * pi)"
proof -
  have a: "(sin ((- 90 - 90) * pi / 180 / 2))\<^sup>2
             + cos (90 * pi / 180) * cos (- 90 * pi / 180) * (sin ((90 - 90) * pi / 180 / 2))\<^sup>2 = 1"
    by simp
  show ?thesis
    using haversine_exact [OF a] by (simp add: atan2_one_zero)
qed

lemma haversine_pole_to_origin: "haversineDistanceKm exact 90 90 0 0 = Fin (6371 * pi / 2)"
proof -
  have s: "sin ((0 - 90) * pi / 180 / 2) = - (sqrt 2 / 2)"
  proof -
    have "(0 - 90) * pi / 180 / 2 = - (pi / 4)" by simp
    then show ?thesis by (simp only: sin_minus sin_45)
  qed
  have c: "cos (90 * pi / 180) = 0"
    by simp
  have a: "(sin ((0 - 90) * pi / 180 / 2))\<^sup>2
             + cos (90 * pi / 180) * cos (0 * pi / 180) * (sin ((0 - 90) * pi / 180 / 2))\<^sup>2 = 1 / 2"
    unfolding s c by (simp add: power2_eq_square)
  have h: "(0::real) < sqrt (1 / 2)" by simp
  show ?thesis
    using haversine_exact [OF a] atan2_diag [OF h] by simp
qed

lemma px_py_known:
  assumes "latitude p = Some x" "x \<noteq> 0" "longitude p = Some y" "y \<noteq> 0"
  shows "pickup_px p = Some x" "pickup_py p = Some y"
  using assms by (simp_all add: pickup_px_def pickup_py_def column_def)

text \<open>
  Claim C6, as amended.  For a pickup with known, non-zero coordinates \<open>(x, y)\<close>, the
  distance of every vendor is what \<^verbatim>\<open>haversineDistanceKm\<close> (R = 6371 km) computes from
  \<open>(x, y)\<close> to the vendor's coordinates with each missing (or zero) coordinate read as
  0.  A vendor lacking coordinates so gets the distance from the pickup to (0, 0),
  as a vendor placed there would, and not an infinite one.  When every computed
  distance is a number, the ranked list holds the vendors, each with its distance,
  in ascending order of distance, vendors at the same distance in their listing
  order; a vendor lacking coordinates is then ordered by its distance like any
  other and is not moved to the end.  This holds for every arithmetic.  (When a
  computed distance is NaN nothing is said about the order.)
\<close>

theorem ranking_places_missing_coordinates_at_origin:
  assumes "latitude p = Some x" "x \<noteq> 0" "longitude p = Some y" "y \<noteq> 0"
  shows "(last_latitude v = None \<and> v_latitude v = None \<and> lat v = None \<and> last_longitude v = None
            \<and> v_longitude v = None \<and> lon v = None \<and> lng v = None \<longrightarrow>
          distanceKm m (pickup_px p) (pickup_py p) v = haversineDistanceKm m x y 0 0)
       \<and> distanceKm m (pickup_px p) (pickup_py p) u
           = haversineDistanceKm m x y (or_zero [last_latitude u, v_latitude u, lat u])
               (or_zero [last_longitude u, v_longitude u, lon u, lng u])
       \<and> ((\<forall>w \<in> set vendors. distanceKm m (pickup_px p) (pickup_py p) w \<noteq> NaN) \<longrightarrow>
            sorted (map (\<lambda>r. the_num (snd r)) (ranked m p vendors))
          \<and> mset (map fst (ranked m p vendors)) = mset vendors
          \<and> (\<forall>r \<in> set (ranked m p vendors). snd r = distanceKm m (pickup_px p) (pickup_py p) (fst r))
          \<and> (\<forall>k. filter (\<lambda>r. the_num (snd r) = k) (ranked m p vendors)
                   = filter (\<lambda>r. the_num (snd r) = k)
                       (map (\<lambda>w. (w, distanceKm m (pickup_px p) (pickup_py p) w)) vendors)))"
proof -
  note k = px_py_known [OF assms]
  let ?rows = "map (\<lambda>w. (w, distanceKm m (pickup_px p) (pickup_py p) w)) vendors"
  have z: "last_latitude v = None \<and> v_latitude v = None \<and> lat v = None \<and> last_longitude v = None
            \<and> v_longitude v = None \<and> lon v = None \<and> lng v = None \<longrightarrow>
          distanceKm m (pickup_px p) (pickup_py p) v = haversineDistanceKm m x y 0 0"
    by (simp add: distanceKm_def k Let_def)
  have d: "distanceKm m (pickup_px p) (pickup_py p) u
           = haversineDistanceKm m x y (or_zero [last_latitude u, v_latitude u, lat u])
               (or_zero [last_longitude u, v_longitude u, lon u, lng u])"
    by (simp add: distanceKm_def k Let_def)
  have r: "sorted (map (\<lambda>r. the_num (snd r)) (ranked m p vendors))
          \<and> mset (map fst (ranked m p vendors)) = mset vendors
          \<and> (\<forall>r \<in> set (ranked m p vendors). snd r = distanceKm m (pickup_px p) (pickup_py p) (fst r))
          \<and> (\<forall>k. filter (\<lambda>r. the_num (snd r) = k) (ranked m p vendors)
                   = filter (\<lambda>r. the_num (snd r) = k) ?rows)"
    if n: "\<forall>w \<in> set vendors. distanceKm m (pickup_px p) (pickup_py p) w \<noteq> NaN"
  proof -
    from n have "list_all (\<lambda>r. snd r \<noteq> NaN) ?rows"
      by (simp add: list_all_iff)
    then have e: "ranked m p vendors = sort_key (\<lambda>r. the_num (snd r)) ?rows"
      by (simp add: ranked_def Let_def)
    have s: "sorted (map (\<lambda>r. the_num (snd r)) (ranked m p vendors))"
      unfolding e by (rule sorted_sort_key)
    have "mset (map fst (ranked m p vendors)) = image_mset fst (mset (ranked m p vendors))"
      by simp
    also have "\<dots> = mset vendors"
      unfolding e by (simp add: image_mset.compositionality comp_def)
    finally have ms: "mset (map fst (ranked m p vendors)) = mset vendors" .
    have el: "\<forall>r \<in> set (ranked m p vendors). snd r = distanceKm m (pickup_px p) (pickup_py p) (fst r)"
      unfolding e by auto
    have st: "filter (\<lambda>r. the_num (snd r) = k) (ranked m p vendors)
                = filter (\<lambda>r. the_num (snd r) = k) ?rows" for k
      unfolding e by (rule sort_key_stable)
    show ?thesis using s ms el st by blast
  qed
  show ?thesis using z d r by blast
qed

lemma polar_distances:
  "distanceKm exact (pickup_px (row0\<lparr>latitude := Some 90, longitude := Some 90\<rparr>))
     (pickup_py (row0\<lparr>latitude := Some 90, longitude := Some 90\<rparr>))
     (backend_at ''V1'' ''http://v1.example.com'' (- 90) 90) = Fin (6371 * pi)"
  "distanceKm exact (pickup_px (row0\<lparr>latitude := Some 90, longitude := Some 90\<rparr>))
     (pickup_py (row0\<lparr>latitude := Some 90, longitude := Some 90\<rparr>))
     (backend ''V2'' ''http://v2.example.com'') = Fin (6371 * pi / 2)"
  by (simp_all add: distanceKm_def pickup_px_def pickup_py_def column_def row0_def backend_at_def
        backend_def haversine_pole_to_pole haversine_pole_to_origin)

text \<open>
  Claim C6 as stated fails: for a pickup at (90, 90), vendor \<open>V1\<close> at (-90, 90) is
  6371 pi km away and vendor \<open>V2\<close>, which has no coordinates, is ranked at
  6371 pi / 2 km, so \<open>V2\<close> comes before \<open>V1\<close>.
\<close>

theorem vendor_without_coordinates_ranked_first:
  "map (vendorIdOf \<circ> fst)
     (ranked exact (row0\<lparr>latitude := Some 90, longitude := Some 90\<rparr>)
        [backend_at ''V1'' ''http://v1.example.com'' (- 90) 90, backend ''V2'' ''http://v2.example.com''])
   = [''V2'', ''V1'']"
  by (simp add: ranked_def polar_distances the_num_def)
     (simp add: backend_at_def backend_def vendorIdOf_def trim_def is_space_def)

text \<open>The theorem at the same pickup and vendors, in exact arithmetic.\<close>

theorem ranking_places_missing_coordinates_at_origin_witness:
  "distanceKm exact (pickup_px (row0\<lparr>latitude := Some 90, longitude := Some 90\<rparr>))
        (pickup_py (row0\<lparr>latitude := Some 90, longitude := Some 90\<rparr>))
        (backend ''V2'' ''http://v2.example.com'') = haversineDistanceKm exact 90 90 0 0
   \<and> sorted (map (\<lambda>r. the_num (snd r))
        (ranked exact (row0\<lparr>latitude := Some 90, longitude := Some 90\<rparr>)
           [backend_at ''V1'' ''http://v1.example.com'' (- 90) 90, backend ''V2'' ''http://v2.example.com'']))
   \<and> mset (map fst
        (ranked exact (row0\<lparr>latitude := Some 90, longitude := Some 90\<rparr>)
           [backend_at ''V1'' ''http://v1.example.com'' (- 90) 90, backend ''V2'' ''http://v2.example.com'']))
     = mset [backend_at ''V1'' ''http://v1.example.com'' (- 90) 90, backend ''V2'' ''http://v2.example.com'']"
proof -
  let ?p = "row0\<lparr>latitude := Some 90, longitude := Some 90\<rparr>"
  let ?vs = "[backend_at ''V1'' ''http://v1.example.com'' (- 90) 90, backend ''V2'' ''http://v2.example.com'']"
  have h: "latitude ?p = Some 90" "(90::real) \<noteq> 0" "longitude ?p = Some 90" "(90::real) \<noteq> 0"
    by (simp_all add: row0_def)
  have c: "last_latitude (backend ''V2'' ''http://v2.example.com'') = None
         \<and> v_latitude (backend ''V2'' ''http://v2.example.com'') = None
         \<and> lat (backend ''V2'' ''http://v2.example.com'') = None
         \<and> last_longitude (backend ''V2'' ''http://v2.example.com'') = None
         \<and> v_longitude (backend ''V2'' ''http://v2.example.com'') = None
         \<and> lon (backend ''V2'' ''http://v2.example.com'') = None
         \<and> lng (backend ''V2'' ''http://v2.example.com'') = None"
    by (simp add: backend_def)
  have n: "\<forall>w \<in> set ?vs. distanceKm exact (pickup_px ?p) (pickup_py ?p) w \<noteq> NaN"
    by (simp add: polar_distances)
  from ranking_places_missing_coordinates_at_origin
         [OF h, of "backend ''V2'' ''http://v2.example.com''" exact _ ?vs] c n
  show ?thesis by blast
qed

text \<open>
  Claim C10: when the stored latitude or longitude of the pickup is missing or
  exactly 0, every vendor gets the distance \<^verbatim>\<open>Number.MAX_SAFE_INTEGER\<close>, the ranked
  list is the vendor list in its listing order, and the candidates are that list
  without the excluded vendors.  This holds for every arithmetic.
\<close>

theorem zero_coordinates_keep_listing_order:
  assumes "latitude p = None \<or> latitude p = Some 0 \<or> longitude p = None \<or> longitude p = Some 0"
  shows "distanceKm m (pickup_px p) (pickup_py p) v = Fin MAX_SAFE_INTEGER
       \<and> ranked m p vendors = map (\<lambda>v. (v, Fin MAX_SAFE_INTEGER)) vendors
       \<and> candidates_of m p skipRefs vendors
           = filter (\<lambda>v. vendorIdOf v = [] \<or> vendorIdOf v \<notin> set skipRefs) vendors"
proof -
  have d: "distanceKm m (pickup_px p) (pickup_py p) u = Fin MAX_SAFE_INTEGER" for u
    using px_py_absent [OF assms] by (auto simp: distanceKm_def Let_def split: option.splits)
  have k: "sort_key (\<lambda>r. the_num (snd r)) (map (\<lambda>v. (v, Fin MAX_SAFE_INTEGER)) vendors)
             = map (\<lambda>v. (v, Fin MAX_SAFE_INTEGER)) vendors"
    by (rule sort_key_const [where c = MAX_SAFE_INTEGER]) (auto simp: the_num_def)
  have r: "ranked m p vendors = map (\<lambda>v. (v, Fin MAX_SAFE_INTEGER)) vendors"
    by (simp add: ranked_def d k list_all_iff Let_def)
  show ?thesis
    using d r by (simp add: candidates_of_def Let_def comp_def)
qed

text \<open>The theorem for a pickup on the equator and two vendors with coordinates.\<close>

theorem zero_coordinates_keep_listing_order_witness:
  "map fst (ranked exact (row0\<lparr>latitude := Some 0, longitude := Some 77.59\<rparr>)
              [backend_at ''V1'' ''http://v1.example.com'' 12.98 77.60,
               backend_at ''V2'' ''http://v2.example.com'' 12.96 77.58])
     = [backend_at ''V1'' ''http://v1.example.com'' 12.98 77.60,
        backend_at ''V2'' ''http://v2.example.com'' 12.96 77.58]
   \<and> distanceKm exact (pickup_px (row0\<lparr>latitude := Some 0, longitude := Some 77.59\<rparr>))
        (pickup_py (row0\<lparr>latitude := Some 0, longitude := Some 77.59\<rparr>))
        (backend_at ''V2'' ''http://v2.example.com'' 12.96 77.58) = Fin 9007199254740991"
  using zero_coordinates_keep_listing_order [of "row0\<lparr>latitude := Some 0, longitude := Some 77.59\<rparr>"
          exact "backend_at ''V2'' ''http://v2.example.com'' 12.96 77.58"
          "[backend_at ''V1'' ''http://v1.example.com'' 12.98 77.60,
            backend_at ''V2'' ''http://v2.example.com'' 12.96 77.58]" "[]"]
  by (simp add: row0_def MAX_SAFE_INTEGER_def comp_def)

section \<open>Customer cancel\<close>

lemma cancel_route_owned:
  assumes up: "\<not> store_fails e" and pid: "trim i \<noteq> []"
    and row: "pickups w (trim i) = Some p" and own: "customer_id p = uid" and st: "status p \<noteq> COMPLETED"
  shows "fst (fst (cancel_route e (Some uid) i w)) = 200"
    and "pickups (snd (cancel_route e (Some uid) i w)) (trim i)
           = Some (p\<lparr>status := CANCELLED, cancelled_at := Some (clock w),
                      assigned_vendor_ref := None, assignment_expires_at := None\<rparr>)"
    and "clock (snd (cancel_route e (Some uid) i w)) = clock w"
  using assms
  by (simp_all add: cancel_route_def not_store_fails cancel_pickup_def update_pickup_def Let_def
        drop_session_def clearTimeout_def split: option.splits)

text \<open>
  Claim C7, as amended.  A pickup of the customer that is not completed is cancelled
  by the first request; a second request of the same customer at time \<open>t\<close> is
  answered 200 again and leaves the row as the first left it except for
  \<^verbatim>\<open>cancelled_at\<close>, which becomes \<open>t\<close>.  This holds with the stored procedure and with
  the fallback update.
\<close>

theorem second_cancel_restamps:
  assumes up: "\<not> store_fails e" and pid: "trim i \<noteq> []"
    and row: "pickups w (trim i) = Some p" and own: "customer_id p = uid" and st: "status p \<noteq> COMPLETED"
  shows "fst (fst (cancel_route e (Some uid) i w)) = 200
       \<and> pickups (snd (cancel_route e (Some uid) i w)) (trim i)
           = Some (p\<lparr>status := CANCELLED, cancelled_at := Some (clock w),
                      assigned_vendor_ref := None, assignment_expires_at := None\<rparr>)
       \<and> fst (fst (cancel_route e (Some uid) i ((snd (cancel_route e (Some uid) i w))\<lparr>clock := t\<rparr>))) = 200
       \<and> pickups (snd (cancel_route e (Some uid) i ((snd (cancel_route e (Some uid) i w))\<lparr>clock := t\<rparr>))) (trim i)
           = Some (p\<lparr>status := CANCELLED, cancelled_at := Some t,
                      assigned_vendor_ref := None, assignment_expires_at := None\<rparr>)"
proof -
  let ?w1 = "snd (cancel_route e (Some uid) i w)"
  let ?p1 = "p\<lparr>status := CANCELLED, cancelled_at := Some (clock w),
                assigned_vendor_ref := None, assignment_expires_at := None\<rparr>"
  note first = cancel_route_owned [OF up pid row own st]
  have row1: "pickups (?w1\<lparr>clock := t\<rparr>) (trim i) = Some ?p1"
    using first(2) by simp
  have own1: "customer_id ?p1 = uid" using own by simp
  have st1: "status ?p1 \<noteq> COMPLETED" by simp
  note second = cancel_route_owned [OF up pid row1 own1 st1]
  show ?thesis
    using first(1,2) second(1,2) by simp
qed

text \<open>The theorem for the pickup offered to \<open>V1\<close>, cancelled at times 0 and 5000.\<close>

theorem second_cancel_restamps_witness:
  "pickups (snd (cancel_route env0 (Some ''c1'') ''p1'' (world_of row_offered []))) ''p1''
     = Some (row0\<lparr>status := CANCELLED, cancelled_at := Some 0\<rparr>)
   \<and> pickups (snd (cancel_route env0 (Some ''c1'') ''p1''
                ((snd (cancel_route env0 (Some ''c1'') ''p1'' (world_of row_offered [])))\<lparr>clock := 5000\<rparr>))) ''p1''
     = Some (row0\<lparr>status := CANCELLED, cancelled_at := Some 5000\<rparr>)"
  using second_cancel_restamps [of env0 "''p1''" "world_of row_offered []" row_offered "''c1''" 5000]
  by (simp add: env0_def store_fails_def trim_def is_space_def world_of_def row_offered_def row0_def)

text \<open>
  Claim C7 as stated fails: after a cancel at time 0, a second cancel at time 5000
  changes the row (its \<^verbatim>\<open>cancelled_at\<close>).
\<close>

theorem second_cancel_changes_cancelled_at:
  "pickups (snd (cancel_route env0 (Some ''c1'') ''p1''
                ((snd (cancel_route env0 (Some ''c1'') ''p1'' (world_of row0 [])))\<lparr>clock := 5000\<rparr>))) ''p1''
   \<noteq> pickups (snd (cancel_route env0 (Some ''c1'') ''p1'' (world_of row0 []))) ''p1''"
  by (simp add: cancel_route_def cancel_pickup_def update_pickup_def drop_session_def Let_def
        env0_def store_fails_def trim_def is_space_def world_of_def row0_def)

section \<open>Dispatch while an offer is active\<close>

lemma dispatch_ignores_terminal:
  "pickups w pid = Some p \<Longrightarrow> isTerminalStatus (status p) \<Longrightarrow> dispatchPickup e pid skipRefs w = w"
  by (simp add: dispatchPickup_def)

text \<open>
  A vendor ref is empty only for a directory row whose id consists of blanks; the
  directory refuses such ids at registration.  The reservation is the only writer of
  a fresh \<^verbatim>\<open>assigned_vendor_ref\<close>, and it writes \<^verbatim>\<open>vendorIdOf\<close> of a directory row.
\<close>

lemma first_truthy_nonempty: "first_truthy xs = Some r \<Longrightarrow> r \<noteq> []"
  by (induction xs rule: first_truthy.induct) (auto split: if_splits)

lemma vendorIdOf_empty:
  assumes "vendorIdOf v = []"
  shows "\<exists>raw. first_truthy [vendor_id v, vendor_ref v, row_id v] = Some raw \<and> raw \<noteq> [] \<and> trim raw = []"
proof (cases "first_truthy [vendor_id v, vendor_ref v, row_id v]")
  case None
  then have "vendorIdOf v = trim ''unknown''" by (simp add: vendorIdOf_def)
  then show ?thesis using assms by (simp add: trim_def is_space_def)
next
  case (Some raw)
  then have "raw \<noteq> []"
    by (rule first_truthy_nonempty)
  moreover have "trim raw = []" using Some assms by (simp add: vendorIdOf_def)
  ultimately show ?thesis using Some by simp
qed

text \<open>
  Claim C8.  For a pickup in \<^verbatim>\<open>FINDING_VENDOR\<close> that is offered to a vendor (its
  \<^verbatim>\<open>assigned_vendor_ref\<close> is not null; a vendor ref is not the empty string) and whose
  deadline is strictly in the future, a dispatch changes nothing: no row is
  written, no timer is armed.  A second dispatch at a later time before the
  deadline changes nothing either, so two dispatches equal one.
\<close>

theorem dispatch_while_offer_active:
  assumes row: "pickups w pid = Some p" and st: "status p = FINDING_VENDOR"
    and ref: "assigned_vendor_ref p = Some v" "v \<noteq> []"
    and exp: "assignment_expires_at p = Some t" "clock w < t"
  shows "dispatchPickup e pid skipRefs w = w
       \<and> store_writes (dispatchPickup e pid skipRefs w) = store_writes w
       \<and> timers (dispatchPickup e pid skipRefs w) = timers w
       \<and> (clock w \<le> t' \<and> t' < t \<longrightarrow>
            dispatchPickup e pid skipRefs' ((dispatchPickup e pid skipRefs w)\<lparr>clock := t'\<rparr>)
              = (dispatchPickup e pid skipRefs w)\<lparr>clock := t'\<rparr>)"
proof -
  have a: "dispatchPickup e pid s w' = w'"
    if "pickups w' pid = Some p" "clock w' < t" for s w'
    using that st ref exp(1)
    by (simp add: dispatchPickup_def isTerminalStatus_def activeOffer_def truthy_def)
  have 1: "dispatchPickup e pid skipRefs w = w" using a [OF row exp(2)] .
  show ?thesis using 1 a [of "w\<lparr>clock := t'\<rparr>" skipRefs'] row by simp
qed

text \<open>The theorem for the pickup offered to \<open>V1\<close>, dispatched at times 30000 and 60000.\<close>

theorem dispatch_while_offer_active_witness:
  "dispatchPickup env0 ''p1'' [] ((world_of row_offered two_vendors)\<lparr>clock := 30000\<rparr>)
     = (world_of row_offered two_vendors)\<lparr>clock := 30000\<rparr>
   \<and> dispatchPickup env0 ''p1'' []
       ((dispatchPickup env0 ''p1'' [] ((world_of row_offered two_vendors)\<lparr>clock := 30000\<rparr>))\<lparr>clock := 60000\<rparr>)
     = (dispatchPickup env0 ''p1'' [] ((world_of row_offered two_vendors)\<lparr>clock := 30000\<rparr>))\<lparr>clock := 60000\<rparr>"
proof -
  let ?w = "(world_of row_offered two_vendors)\<lparr>clock := 30000\<rparr>"
  have h: "pickups ?w ''p1'' = Some row_offered" "status row_offered = FINDING_VENDOR"
    "assigned_vendor_ref row_offered = Some ''V1''" "''V1'' \<noteq> []"
    "assignment_expires_at row_offered = Some 120000" "clock ?w < 120000"
    by (simp_all add: world_of_def row_offered_def)
  have t: "clock ?w \<le> 60000 \<and> (60000::nat) < 120000"
    by (simp add: world_of_def)
  from dispatch_while_offer_active [OF h, of env0 "[]" 60000 "[]"] t
  show ?thesis by blast
qed

section \<open>The ETA of status polling\<close>

lemma round_clamp: "round (max 5 (min 180 (x::real))) = max 5 (min 180 (round x))"
proof -
  have r5: "round (5::real) = 5" and r180: "round (180::real) = 180" by simp_all
  consider "x \<le> 5" | "5 \<le> x" "x \<le> 180" | "180 \<le> x" by linarith
  then show ?thesis
  proof cases
    case 1
    then have "round x \<le> 5" using round_mono [of x 5] r5 by simp
    with 1 show ?thesis by (simp add: max_def min_def)
  next
    case 2
    then have "5 \<le> round x" "round x \<le> 180"
      using round_mono [of 5 x] round_mono [of x 180] r5 r180 by simp_all
    with 2 show ?thesis by (simp add: max_def min_def)
  next
    case 3
    then have "180 \<le> round x" using round_mono [of 180 x] r180 by simp
    with 3 show ?thesis by (simp add: max_def min_def)
  qed
qed

text \<open>
  With both coordinate pairs present and a distance of \<open>km\<close> km, the ETA is the
  rounded number of minutes at 20 km/h, kept between 5 and 180.
\<close>

lemma eta_when_all_coordinates_exist:
  assumes "info_latitude v = Some a" "info_longitude v = Some b" "latitude p = Some c"
    "longitude p = Some d" "haversineDistanceKm m a b c d = Fin km"
  shows "etaMinutes m (Some v) p
           = Some (Fin (of_int (max 5 (min 180 (round (fl m (fl m (km / 20) * 60)))))))"
  using assms
  by (simp add: etaMinutes_def column_def Let_def f_mul_def f_div_def f_bin_def Math_min_def
        Math_max_def Math_round_def round_clamp)

lemma eta_without_vendor: "etaMinutes m None p = None"
  by (simp add: etaMinutes_def)

lemma central_angle_lower:
  assumes "1 / 2 \<le> a" "a \<le> 1"
  shows "pi / 2 \<le> 2 * atan2 (sqrt a) (sqrt (1 - a))"
proof -
  have pos: "0 < sqrt a" using assms by simp
  consider "0 < 1 - a" | "1 - a = 0" using assms(2) by linarith
  then show ?thesis
  proof cases
    case 1
    then have d: "0 < sqrt (1 - a)" by simp
    have "sqrt (1 - a) \<le> sqrt a" using assms by simp
    then have "1 \<le> sqrt a / sqrt (1 - a)" using d by (simp add: le_divide_eq)
    then have "arctan 1 \<le> arctan (sqrt a / sqrt (1 - a))" by (simp only: arctan_le_iff)
    then show ?thesis using d by (simp add: atan2_def arctan_one)
  next
    case 2
    then show ?thesis using pos by (simp add: atan2_def)
  qed
qed

lemma haversine_far:
  "\<exists>km. haversineDistanceKm exact 30 120 0 0 = Fin km \<and> 6371 * (pi / 2) \<le> km"
proof -
  have s: "sin ((0 - 120) * pi / 180 / 2) = - (sqrt 3 / 2)"
  proof -
    have "(0 - 120) * pi / 180 / 2 = - (pi / 3)" by simp
    then show ?thesis by (simp only: sin_minus sin_60)
  qed
  have c: "cos (30 * pi / 180) = sqrt 3 / 2"
  proof -
    have "30 * pi / 180 = pi / 6" by simp
    then show ?thesis by (simp only: cos_30)
  qed
  have c0: "cos (0 * pi / 180) = 1" by simp
  define t where "t = (sin ((0 - 30) * pi / 180 / 2))\<^sup>2"
  have t0: "0 \<le> t" by (simp add: t_def)
  have t1: "t \<le> 1 / 4"
  proof -
    have e: "(0 - 30) * pi / 180 / 2 = - (pi / 12)" by simp
    have "sin (pi / 12) \<le> sin (pi / 6)"
      by (rule sin_monotone_2pi_le) simp_all
    then have u: "sin (pi / 12) \<le> 1 / 2" by (simp add: sin_30)
    have l: "0 \<le> sin (pi / 12)"
      by (rule sin_ge_zero) simp_all
    have "(sin (pi / 12))\<^sup>2 \<le> (1 / 2)\<^sup>2"
      using u l by (rule power_mono)
    then show ?thesis by (simp add: t_def e power2_eq_square)
  qed
  have q: "4 / 3 \<le> sqrt 3"
    by (rule real_le_rsqrt) (simp add: power2_eq_square)
  have q2: "sqrt 3 \<le> 2"
    by (rule real_le_lsqrt) simp_all
  define a where "a = t + sqrt 3 / 2 * 1 * (- (sqrt 3 / 2))\<^sup>2"
  have av: "a = t + 3 * sqrt 3 / 8" by (simp add: a_def power2_eq_square)
  have lo: "1 / 2 \<le> a" using t0 q by (simp add: av)
  have hi: "a \<le> 1" using t1 q2 by (simp add: av)
  have e: "(sin ((0 - 30) * pi / 180 / 2))\<^sup>2
             + cos (30 * pi / 180) * cos (0 * pi / 180) * (sin ((0 - 120) * pi / 180 / 2))\<^sup>2 = a"
    unfolding s c c0 a_def t_def ..
  have "0 \<le> a" using lo by simp
  from haversine_exact [OF e this hi] central_angle_lower [OF lo hi]
  show ?thesis by simp
qed

lemma eta_far:
  "Math_round (Math_max (Fin 5) (Math_min (Fin 180)
     (f_mul exact (f_div exact (haversineDistanceKm exact 30 120 0 0) (Fin 20)) (Fin 60)))) = Fin 180"
proof -
  from haversine_far obtain km
    where h: "haversineDistanceKm exact 30 120 0 0 = Fin km" and l: "6371 * (pi / 2) \<le> km"
    by blast
  have "(180::real) \<le> 6371 * (pi / 2) / 20 * 60"
    using pi_ge_two by simp
  also have "\<dots> \<le> km / 20 * 60"
    using l by simp
  finally have "max 5 (min 180 (km / 20 * 60)) = 180"
    by simp
  then show ?thesis
    unfolding h exact_ops by (simp add: Math_min_def Math_max_def Math_round_def)
qed

lemma etaMinutes_null_pickup:
  "info_latitude v = Some a \<Longrightarrow> info_longitude v = Some b \<Longrightarrow> latitude p = None \<Longrightarrow>
   longitude p = None \<Longrightarrow>
   etaMinutes m (Some v) p
     = Some (Math_round (Math_max (Fin 5) (Math_min (Fin 180)
               (f_mul m (f_div m (haversineDistanceKm m a b 0 0) (Fin 20)) (Fin 60)))))"
  unfolding etaMinutes_def column_def Let_def by simp

lemma vendor_info_v1:
  "fetchVendorInfoByRef env0 (Some ''V1'') (world_of p [backend_at ''V1'' u la lo])
     = Some \<lparr>info_ref = ''V1'', info_latitude = Some la, info_longitude = Some lo\<rparr>"
  by (simp add: fetchVendorInfoByRef_def truthy_def store_fails_def env0_def String_def world_of_def
        backend_at_def backend_def)

text \<open>
  Claim C9 says that the ETA is \<^verbatim>\<open>null\<close> when either coordinate pair is missing.
  The code reads a missing coordinate (SQL NULL) through \<^verbatim>\<open>Number(null)\<close>, which is
  0 and finite.  For an assigned pickup without coordinates and a vendor at
  (30, 120) the ETA block, and the whole handler, return 180 minutes: the distance
  is measured to (0, 0).  The third equation shows the same for a vendor at
  (12.98, 77.6); the last one, that under every arithmetic the ETA is computed,
  from the distance to (0, 0), and not set to \<^verbatim>\<open>null\<close>.
\<close>

theorem eta_for_pickup_without_coordinates:
  "etaMinutes exact (Some \<lparr>info_ref = ''V1'', info_latitude = Some 30, info_longitude = Some 120\<rparr>)
      (row0\<lparr>status := ASSIGNED, assigned_vendor_ref := Some ''V1''\<rparr>) = Some (Fin 180)
   \<and> get_pickup_route env0 (Some ''c1'') ''p1''
       (world_of (row0\<lparr>status := ASSIGNED, assigned_vendor_ref := Some ''V1''\<rparr>)
          [backend_at ''V1'' ''http://v1.example.com'' 30 120])
     = (200, Poll (row0\<lparr>status := ASSIGNED, assigned_vendor_ref := Some ''V1''\<rparr>) (Some (Fin 180)))
   \<and> etaMinutes exact (Some \<lparr>info_ref = ''V1'', info_latitude = Some 12.98, info_longitude = Some 77.6\<rparr>)
      (row0\<lparr>status := ASSIGNED, assigned_vendor_ref := Some ''V1''\<rparr>)
     = Some (Math_round (Math_max (Fin 5) (Math_min (Fin 180)
               (f_mul exact (f_div exact (haversineDistanceKm exact 12.98 77.6 0 0) (Fin 20)) (Fin 60)))))
   \<and> (\<forall>m. etaMinutes m (Some \<lparr>info_ref = ''V1'', info_latitude = Some 30, info_longitude = Some 120\<rparr>)
             (row0\<lparr>status := ASSIGNED, assigned_vendor_ref := Some ''V1''\<rparr>)
           = Some (Math_round (Math_max (Fin 5) (Math_min (Fin 180)
               (f_mul m (f_div m (haversineDistanceKm m 30 120 0 0) (Fin 20)) (Fin 60))))))"
proof -
  let ?p = "row0\<lparr>status := ASSIGNED, assigned_vendor_ref := Some ''V1''\<rparr>"
  let ?v = "\<lparr>info_ref = ''V1'', info_latitude = Some 30, info_longitude = Some 120\<rparr>"
  have n: "latitude ?p = None" "longitude ?p = None" by (simp_all add: row0_def)
  have 4: "etaMinutes m (Some ?v) ?p
             = Some (Math_round (Math_max (Fin 5) (Math_min (Fin 180)
                  (f_mul m (f_div m (haversineDistanceKm m 30 120 0 0) (Fin 20)) (Fin 60)))))" for m
    using etaMinutes_null_pickup [of ?v 30 120 ?p m] n
    by (simp only: vendor_info.simps)
  have 1: "etaMinutes exact (Some ?v) ?p = Some (Fin 180)"
    using 4 [of exact] by (simp only: eta_far)
  have 3: "etaMinutes exact (Some \<lparr>info_ref = ''V1'', info_latitude = Some 12.98, info_longitude = Some 77.6\<rparr>) ?p
             = Some (Math_round (Math_max (Fin 5) (Math_min (Fin 180)
                  (f_mul exact (f_div exact (haversineDistanceKm exact 12.98 77.6 0 0) (Fin 20)) (Fin 60)))))"
    using etaMinutes_null_pickup [of "\<lparr>info_ref = ''V1'', info_latitude = Some 12.98, info_longitude = Some 77.6\<rparr>"
            "12.98" "77.6" ?p exact] n
    by (simp only: vendor_info.simps)
  have own: "pickups (world_of ?p vs) ''p1'' = Some ?p" "customer_id ?p = ''c1''"
    "truthy (assigned_vendor_ref ?p)" "assigned_vendor_ref ?p = Some ''V1''" for vs
    by (simp_all add: world_of_def row0_def truthy_def)
  have t: "trim ''p1'' = ''p1''" by (simp add: trim_def is_space_def)
  have e: "store_error env0 = None" "numerics env0 = exact" by (simp_all add: env0_def)
  have tr: "truthy (Some ''V1'')" by (simp add: truthy_def)
  have 2: "get_pickup_route env0 (Some ''c1'') ''p1''
             (world_of ?p [backend_at ''V1'' ''http://v1.example.com'' 30 120])
           = (200, Poll ?p (Some (Fin 180)))"
    unfolding get_pickup_route_def Let_def t
    by (simp only: own e tr vendor_info_v1 1 option.case if_True if_False list.distinct not_False_eq_True refl)
  show ?thesis using 1 2 3 4 by blast
qed

end
